theory Spec2Isabelle
  imports Complex_Main
begin

section \<open>Python values\<close>

text \<open>
  Python strings are modelled as \<^typ>\<open>string\<close>. A character outside ASCII stands as the
  bytes of its UTF-8 encoding; the abbreviations below name the ones the message
  literals of the analyzers use. Python ints are modelled as \<^typ>\<open>int\<close>, and a
  reading of \<open>datetime.now()\<close> as a real (POSIX seconds) that the caller passes in.
  A finite Python float is modelled as the real number it is. Trend detection, which
  compares floats it has computed, rounds as Python does (subsection Floats below);
  the durations, percentages and averages of the other analyzers are read without
  the rounding.
\<close>

abbreviation (input) u_large_green_circle :: string where
  "u_large_green_circle \<equiv> [CHR 0xF0, CHR 0x9F, CHR 0x9F, CHR 0xA2]"
abbreviation (input) u_large_yellow_circle :: string where
  "u_large_yellow_circle \<equiv> [CHR 0xF0, CHR 0x9F, CHR 0x9F, CHR 0xA1]"
abbreviation (input) u_large_red_circle :: string where
  "u_large_red_circle \<equiv> [CHR 0xF0, CHR 0x9F, CHR 0x94, CHR 0xB4]"
abbreviation (input) u_direct_hit :: string where
  "u_direct_hit \<equiv> [CHR 0xF0, CHR 0x9F, CHR 0x8E, CHR 0xAF]"
abbreviation (input) u_chart_with_upwards_trend :: string where
  "u_chart_with_upwards_trend \<equiv> [CHR 0xF0, CHR 0x9F, CHR 0x93, CHR 0x88]"
abbreviation (input) u_chart_with_downwards_trend :: string where
  "u_chart_with_downwards_trend \<equiv> [CHR 0xF0, CHR 0x9F, CHR 0x93, CHR 0x89]"
abbreviation (input) u_wrench :: string where
  "u_wrench \<equiv> [CHR 0xF0, CHR 0x9F, CHR 0x94, CHR 0xA7]"
abbreviation (input) u_high_voltage_sign :: string where
  "u_high_voltage_sign \<equiv> [CHR 0xE2, CHR 0x9A, CHR 0xA1]"
abbreviation (input) u_snail :: string where
  "u_snail \<equiv> [CHR 0xF0, CHR 0x9F, CHR 0x90, CHR 0x8C]"
abbreviation (input) u_police_cars_revolving_light :: string where
  "u_police_cars_revolving_light \<equiv> [CHR 0xF0, CHR 0x9F, CHR 0x9A, CHR 0xA8]"
abbreviation (input) u_warning_sign :: string where
  "u_warning_sign \<equiv> [CHR 0xE2, CHR 0x9A, CHR 0xA0]"
abbreviation (input) u_variation_selector_16 :: string where
  "u_variation_selector_16 \<equiv> [CHR 0xEF, CHR 0xB8, CHR 0x8F]"
abbreviation (input) u_memo :: string where
  "u_memo \<equiv> [CHR 0xF0, CHR 0x9F, CHR 0x93, CHR 0x9D]"
abbreviation (input) u_bar_chart :: string where
  "u_bar_chart \<equiv> [CHR 0xF0, CHR 0x9F, CHR 0x93, CHR 0x8A]"
abbreviation (input) u_file_cabinet :: string where
  "u_file_cabinet \<equiv> [CHR 0xF0, CHR 0x9F, CHR 0x97, CHR 0x84]"
abbreviation (input) u_trophy :: string where
  "u_trophy \<equiv> [CHR 0xF0, CHR 0x9F, CHR 0x8F, CHR 0x86]"
abbreviation (input) u_white_heavy_check_mark :: string where
  "u_white_heavy_check_mark \<equiv> [CHR 0xE2, CHR 0x9C, CHR 0x85]"
abbreviation (input) u_clipboard :: string where
  "u_clipboard \<equiv> [CHR 0xF0, CHR 0x9F, CHR 0x93, CHR 0x8B]"
abbreviation (input) u_floppy_disk :: string where
  "u_floppy_disk \<equiv> [CHR 0xF0, CHR 0x9F, CHR 0x92, CHR 0xBE]"
abbreviation (input) u_lock :: string where
  "u_lock \<equiv> [CHR 0xF0, CHR 0x9F, CHR 0x94, CHR 0x92]"
abbreviation (input) u_bullet :: string where
  "u_bullet \<equiv> [CHR 0xE2, CHR 0x80, CHR 0xA2]"

type_synonym clock = real

subsection \<open>String operations\<close>

text \<open>
  A Python string is a sequence of characters (code points), and \<open>utf8_chars\<close> cuts
  the bytes of a string into them: the first byte of a character tells how many bytes
  the character has.
\<close>

definition utf8_length :: "char \<Rightarrow> nat" where
  "utf8_length c =
     (let b = (of_char c :: nat)
      in if b < 0xC0 then 1 else if b < 0xE0 then 2 else if b < 0xF0 then 3 else 4)"

fun utf8_chars :: "string \<Rightarrow> string list" where
  "utf8_chars [] = []"
| "utf8_chars (c # s) =
     (c # take (utf8_length c - 1) s) # utf8_chars (drop (utf8_length c - 1) s)"

text \<open>
  The characters that \<open>str.isspace\<close> holds of, which are the ones \<open>str.strip()\<close>
  removes: U+0009 to U+000D, U+001C to U+001F, U+0020, U+0085, U+00A0, U+1680, U+2000
  to U+200A, U+2028, U+2029, U+202F, U+205F and U+3000.
\<close>

definition whitespace :: "string list" where
  "whitespace =
     [[CHR 0x09], [CHR 0x0A], [CHR 0x0B], [CHR 0x0C], [CHR 0x0D],
      [CHR 0x1C], [CHR 0x1D], [CHR 0x1E], [CHR 0x1F], [CHR 0x20],
      [CHR 0xC2, CHR 0x85], [CHR 0xC2, CHR 0xA0], [CHR 0xE1, CHR 0x9A, CHR 0x80],
      [CHR 0xE2, CHR 0x80, CHR 0x80], [CHR 0xE2, CHR 0x80, CHR 0x81],
      [CHR 0xE2, CHR 0x80, CHR 0x82], [CHR 0xE2, CHR 0x80, CHR 0x83],
      [CHR 0xE2, CHR 0x80, CHR 0x84], [CHR 0xE2, CHR 0x80, CHR 0x85],
      [CHR 0xE2, CHR 0x80, CHR 0x86], [CHR 0xE2, CHR 0x80, CHR 0x87],
      [CHR 0xE2, CHR 0x80, CHR 0x88], [CHR 0xE2, CHR 0x80, CHR 0x89],
      [CHR 0xE2, CHR 0x80, CHR 0x8A], [CHR 0xE2, CHR 0x80, CHR 0xA8],
      [CHR 0xE2, CHR 0x80, CHR 0xA9], [CHR 0xE2, CHR 0x80, CHR 0xAF],
      [CHR 0xE2, CHR 0x81, CHR 0x9F], [CHR 0xE3, CHR 0x80, CHR 0x80]]"

definition is_space :: "string \<Rightarrow> bool" where
  "is_space ch = (ch \<in> set whitespace)"

text \<open>\<open>str.strip()\<close> removes the whitespace characters of both ends.\<close>

definition strip :: "string \<Rightarrow> string" where
  "strip s = concat (rev (dropWhile is_space (rev (dropWhile is_space (utf8_chars s)))))"

text \<open>\<open>s.split(sep)\<close> for a separator of one character: never the empty list.\<close>

fun split :: "char \<Rightarrow> string \<Rightarrow> string list" where
  "split sep [] = [[]]"
| "split sep (c # s) =
     (if c = sep then [] # split sep s
      else (case split sep s of l # ls \<Rightarrow> (c # l) # ls | [] \<Rightarrow> [[c]]))"

text \<open>\<open>s.startswith(p)\<close> and the substring test \<open>sub in s\<close>.\<close>

fun startswith :: "string \<Rightarrow> string \<Rightarrow> bool" where
  "startswith s [] = True"
| "startswith [] (p # ps) = False"
| "startswith (c # s) (p # ps) = (c = p \<and> startswith s ps)"

fun contains :: "string \<Rightarrow> string \<Rightarrow> bool" where
  "contains [] sub = (sub = [])"
| "contains (c # s) sub = (startswith (c # s) sub \<or> contains s sub)"

text \<open>\<open>sep.join(xs)\<close>.\<close>

fun join :: "string \<Rightarrow> string list \<Rightarrow> string" where
  "join sep [] = []"
| "join sep [x] = x"
| "join sep (x # y # ys) = x @ sep @ join sep (y # ys)"

text \<open>\<open>str(n)\<close> of an int, as an f-string renders it.\<close>

definition digit_char :: "nat \<Rightarrow> char" where
  "digit_char d = char_of (48 + d)"

fun str_nat :: "nat \<Rightarrow> string" where
  "str_nat n = (if n < 10 then [digit_char n] else str_nat (n div 10) @ [digit_char (n mod 10)])"

definition str_int :: "int \<Rightarrow> string" where
  "str_int i = (if i < 0 then CHR ''-'' # str_nat (nat (- i)) else str_nat (nat i))"

text \<open>\<open>d.get(key, default)\<close> on a dict written as an association list.\<close>

definition dict_get :: "('k \<times> 'v) list \<Rightarrow> 'k \<Rightarrow> 'v \<Rightarrow> 'v" where
  "dict_get d k dflt = (case map_of d k of Some v \<Rightarrow> v | None \<Rightarrow> dflt)"

subsection \<open>Floats\<close>

text \<open>
  A Python float is an IEEE 754 binary64 number. The float nearest to a real \<open>x\<close>
  is found from the binade of \<open>x\<close>: for \<open>2 ^ e \<le> |x| < 2 ^ (e + 1)\<close> the floats are
  spaced \<open>2 ^ (e - 52)\<close> apart, with \<open>e\<close> no less than -1022 (below \<open>2 ^ -1022\<close>
  lie the subnormal floats, spaced \<open>2 ^ -1074\<close> apart), and a tie goes to the even
  multiple of the spacing. A result of magnitude \<open>2 ^ 1024\<close> or more stands for an
  infinity: it compares with every finite float as the infinity does.
\<close>

definition round_half_even :: "real \<Rightarrow> int" where
  "round_half_even x =
     (let f = \<lfloor>x\<rfloor>; d = x - of_int f
      in if d < 1 / 2 then f else if d > 1 / 2 then f + 1 else if even f then f else f + 1)"

definition normal_exponents :: "int list" where
  "normal_exponents = [- 1022..1023]"

definition binade :: "real \<Rightarrow> int" where
  "binade x =
     (case find (\<lambda>e. 2 powi e \<le> \<bar>x\<bar> \<and> \<bar>x\<bar> < 2 powi (e + 1)) normal_exponents of
        Some e \<Rightarrow> e
      | None \<Rightarrow> if \<bar>x\<bar> < 2 powi (- 1022) then - 1022 else 1023)"

text \<open>
  \<open>py_float x\<close> is the float nearest to \<open>x\<close>: the value of a literal such as
  \<open>1.3\<close>, and the result of an operation on floats, which IEEE 754 defines as the
  exact result rounded once.
\<close>

definition py_float :: "real \<Rightarrow> real" where
  "py_float x =
     (let ulp = 2 powi (binade x - 52)
      in real_of_int (round_half_even (x / ulp)) * ulp)"

definition float_mul :: "real \<Rightarrow> real \<Rightarrow> real" where
  "float_mul a b = py_float (a * b)"

definition float_div :: "real \<Rightarrow> real \<Rightarrow> real" where
  "float_div a b = py_float (a / b)"

section \<open>monitoring\_bridge.py: the quick status\<close>

text \<open>
  What one service endpoint answered to \<open>requests.get(url, timeout=timeout)\<close>: a
  response with its status code, or any exception.
\<close>

datatype http_outcome = Responded nat | RequestRaised

definition fast_curl_check :: "http_outcome \<Rightarrow> bool" where
  "fast_curl_check r = (case r of Responded code \<Rightarrow> code = 200 | RequestRaised \<Rightarrow> False)"

text \<open>
  The surroundings of one call of \<open>get_quick_status\<close>: the four endpoints' answers,
  what \<open>docker ps --quiet\<close> printed (\<open>None\<close> when the subprocess raised), and the
  three clock readings the call takes.
\<close>

record quick_env =
  env_app :: http_outcome
  env_prometheus :: http_outcome
  env_loki :: http_outcome
  env_grafana :: http_outcome
  env_docker_stdout :: "string option"
  env_start_time :: clock
  env_stamp_time :: clock
  env_end_time :: clock

record services_block =
  services_total :: int
  services_available :: int
  services_details :: "(string \<times> bool) list"

record containers_block =
  containers_running :: int
  containers_expected :: int

record quick_status =
  qs_timestamp :: clock
  qs_response_time_ms :: real
  qs_services :: services_block
  qs_containers :: containers_block
  qs_status :: string

definition bool_int :: "bool \<Rightarrow> int" where
  "bool_int b = (if b then 1 else 0)"

definition get_quick_status :: "quick_env \<Rightarrow> quick_status" where
  "get_quick_status env =
     (let services =
            [(''app'', fast_curl_check (env_app env)),
             (''prometheus'', fast_curl_check (env_prometheus env)),
             (''loki'', fast_curl_check (env_loki env)),
             (''grafana'', fast_curl_check (env_grafana env))];
          container_count =
            (case env_docker_stdout env of
               Some stdout \<Rightarrow> int (length (filter (\<lambda>line. line \<noteq> []) (split (CHR 0x0A) (strip stdout))))
             | None \<Rightarrow> 0);
          services_ok = sum_list (map (bool_int \<circ> snd) services)
      in \<lparr> qs_timestamp = env_stamp_time env,
           qs_response_time_ms = (env_end_time env - env_start_time env) * 1000,
           qs_services = \<lparr> services_total = 4, services_available = services_ok,
                           services_details = services \<rparr>,
           qs_containers = \<lparr> containers_running = container_count, containers_expected = 4 \<rparr>,
           qs_status = (if services_ok = 4 then u_large_green_circle @ '' OK''
                        else if services_ok \<ge> 2 then u_large_yellow_circle @ '' PARTIAL''
                        else u_large_red_circle @ '' CRITICAL'') \<rparr>)"

text \<open>
  The order of the three status strings by severity, as the specification ranks them:
  OK below PARTIAL below CRITICAL.
\<close>

definition quick_severity :: "string \<Rightarrow> nat" where
  "quick_severity s =
     (if s = u_large_green_circle @ '' OK'' then 0
      else if s = u_large_yellow_circle @ '' PARTIAL'' then 1
      else 2)"

section \<open>smart\_analyzer.py: the log pattern analyzer\<close>

subsection \<open>Regular expressions\<close>

text \<open>
  The fragment of Python's \<open>re\<close> that the pattern table uses: literal ASCII
  characters, the dot (any character but the newline) and the star after one
  character. Matching is the one \<open>re.search(pattern, text, re.IGNORECASE)\<close> does:
  somewhere in the text, character by character, letters compared without case.
\<close>

datatype re_atom = AnyChar | Lit char

datatype re_item = One re_atom | Star re_atom

definition atom_of :: "char \<Rightarrow> re_atom" where
  "atom_of c = (if c = CHR ''.'' then AnyChar else Lit c)"

fun compile_re :: "string \<Rightarrow> re_item list" where
  "compile_re [] = []"
| "compile_re [c] = [One (atom_of c)]"
| "compile_re (c # d # s) =
     (if d = CHR ''*'' then Star (atom_of c) # compile_re s
      else One (atom_of c) # compile_re (d # s))"

text \<open>
  The letter that \<open>re.IGNORECASE\<close> compares a character of the text as. Besides the
  capital letters, four characters outside ASCII compare as an ASCII letter: U+0130
  and U+0131 as i, U+017F as s and U+212A as k.
\<close>

definition lower :: "string \<Rightarrow> string" where
  "lower ch =
     dict_get (zip (map (\<lambda>c. [c]) ''ABCDEFGHIJKLMNOPQRSTUVWXYZ'')
                   (map (\<lambda>c. [c]) ''abcdefghijklmnopqrstuvwxyz'')
               @ [([CHR 0xC4, CHR 0xB0], ''i''), ([CHR 0xC4, CHR 0xB1], ''i''),
                  ([CHR 0xC5, CHR 0xBF], ''s''), ([CHR 0xE2, CHR 0x84, CHR 0xAA], ''k'')])
       ch ch"

definition atom_matches :: "re_atom \<Rightarrow> string \<Rightarrow> bool" where
  "atom_matches a ch =
     (case a of AnyChar \<Rightarrow> ch \<noteq> [CHR 0x0A] | Lit l \<Rightarrow> lower [l] = lower ch)"

fun match_here :: "re_item list \<Rightarrow> string list \<Rightarrow> bool" where
  "match_here [] s = True"
| "match_here (One a # r) [] = False"
| "match_here (One a # r) (c # s) = (atom_matches a c \<and> match_here r s)"
| "match_here (Star a # r) [] = match_here r []"
| "match_here (Star a # r) (c # s) =
     (match_here r (c # s) \<or> (atom_matches a c \<and> match_here (Star a # r) s))"

fun search :: "re_item list \<Rightarrow> string list \<Rightarrow> bool" where
  "search r [] = match_here r []"
| "search r (c # s) = (match_here r (c # s) \<or> search r s)"

definition re_search :: "string \<Rightarrow> string \<Rightarrow> bool" where
  "re_search pattern text = search (compile_re pattern) (utf8_chars text)"

subsection \<open>analyze\_with\_patterns\<close>

text \<open>The pattern table of \<open>LogAnalyzer.__init__\<close>, in the dict's order.\<close>

definition patterns :: "(string \<times> string list) list" where
  "patterns =
     [(''database_errors'', [''connection.*failed'', ''timeout'', ''deadlock'']),
      (''performance_issues'', [''high.*response'', ''slow'', ''timeout'']),
      (''security_issues'', [''unauthorized'', ''forbidden'', ''invalid.*token'']),
      (''application_errors'', [''exception'', ''error'', ''failed''])]"

record log_analysis =
  la_timestamp :: clock
  total_entries :: nat
  levels :: "(string \<times> nat) list"
  detected_patterns :: "string list"
  alert_level :: string
  summary :: string

text \<open>
  \<open>now\<close> is the reading of \<open>datetime.now()\<close> the call takes. The two loops over the
  table add a group's name once, at the first of its patterns that matches.
\<close>

definition analyze_with_patterns :: "clock \<Rightarrow> string \<Rightarrow> log_analysis" where
  "analyze_with_patterns now logs_text =
     (if strip logs_text = [] then
        \<lparr> la_timestamp = now,
          total_entries = 0,
          levels = [(''INFO'', 0), (''WARNING'', 0), (''ERROR'', 0)],
          detected_patterns = [],
          alert_level = ''INFO'',
          summary = ''No logs available for analysis'' \<rparr>
      else
        (let lines = split (CHR 0x0A) (strip logs_text);
             n_info = length (filter (\<lambda>l. contains l ''INFO'') lines);
             n_warning = length (filter (\<lambda>l. contains l ''WARNING'') lines);
             n_error = length (filter (\<lambda>l. contains l ''ERROR'') lines);
             detected =
               map fst (filter (\<lambda>(pattern_type, pats).
                                  list_ex (\<lambda>pattern. re_search pattern logs_text) pats)
                               patterns)
         in \<lparr> la_timestamp = now,
              total_entries = length lines,
              levels = [(''INFO'', n_info), (''WARNING'', n_warning), (''ERROR'', n_error)],
              detected_patterns = detected,
              alert_level = (if n_error > 0 then ''ERROR''
                             else if n_warning > 0 then ''WARNING'' else ''INFO''),
              summary = (if n_error > 0 then ''Critical errors detected''
                         else if n_warning > 0 then ''Warnings present''
                         else ''All systems operating normally'') \<rparr>))"

subsection \<open>get\_loki\_logs\<close>

text \<open>
  A parsed JSON document, and the Python operations the analyzers apply to one. An
  operation on a value of the wrong type raises, as it does in Python. The keys of an
  object are distinct.
\<close>

datatype json =
  JNull | JBool bool | JNum real | JStr string | JArr "json list" | JObj "(string \<times> json) list"

datatype py_exception =
  AttributeError | TypeError | IndexError | KeyError | ImportError | ZeroDivisionError

text \<open>\<open>x.get(key, default)\<close>: only a dict has the method.\<close>

definition py_get :: "json \<Rightarrow> string \<Rightarrow> json \<Rightarrow> py_exception + json" where
  "py_get x key dflt =
     (case x of JObj d \<Rightarrow> Inr (dict_get d key dflt) | _ \<Rightarrow> Inl AttributeError)"

text \<open>\<open>len(x)\<close> and the elements a \<open>for\<close> loop over \<open>x\<close> visits.\<close>

definition py_len :: "json \<Rightarrow> py_exception + nat" where
  "py_len x =
     (case x of JArr xs \<Rightarrow> Inr (length xs) | JStr t \<Rightarrow> Inr (length t)
      | JObj d \<Rightarrow> Inr (length d) | _ \<Rightarrow> Inl TypeError)"

definition py_iter :: "json \<Rightarrow> py_exception + json list" where
  "py_iter x =
     (case x of JArr xs \<Rightarrow> Inr xs | JStr t \<Rightarrow> Inr (map (\<lambda>c. JStr [c]) t)
      | JObj d \<Rightarrow> Inr (map (\<lambda>kv. JStr (fst kv)) d) | _ \<Rightarrow> Inl TypeError)"

text \<open>\<open>x[1]\<close>: the second element of a list or string; no JSON object has the key 1.\<close>

definition py_index1 :: "json \<Rightarrow> py_exception + json" where
  "py_index1 x =
     (case x of
        JArr xs \<Rightarrow> (if length xs > 1 then Inr (xs ! 1) else Inl IndexError)
      | JStr t \<Rightarrow> (if length t > 1 then Inr (JStr [t ! 1]) else Inl IndexError)
      | JObj d \<Rightarrow> Inl KeyError
      | _ \<Rightarrow> Inl TypeError)"

text \<open>\<open>str(e)\<close> of an exception, abbreviated to the name of its class.\<close>

definition exception_text :: "py_exception \<Rightarrow> string" where
  "exception_text e =
     (case e of AttributeError \<Rightarrow> ''AttributeError'' | TypeError \<Rightarrow> ''TypeError''
      | IndexError \<Rightarrow> ''IndexError'' | KeyError \<Rightarrow> ''KeyError''
      | ImportError \<Rightarrow> ''ImportError'' | ZeroDivisionError \<Rightarrow> ''ZeroDivisionError'')"

text \<open>
  What the query of Loki in \<open>get_loki_logs\<close> ends with: \<open>requests.get\<close> or
  \<open>raise_for_status\<close> raised a \<open>RequestException\<close> (the server is unreachable, the
  request timed out, the status is an error), the body is not JSON, something else was
  raised, or the body parsed to a document. The string is the exception's text.
\<close>

datatype loki_reply =
  RaisedRequestException string
| RaisedJSONDecodeError string
| RaisedOther string
| ReplyJson json

text \<open>
  The number the function prints after a reply,
  \<open>len(data.get('data', {}).get('result', []))\<close>, inside the same \<open>try\<close>.
\<close>

definition printed_results :: "json \<Rightarrow> py_exception + nat" where
  "printed_results data =
     (case py_get data ''data'' (JObj []) of
        Inl e \<Rightarrow> Inl e
      | Inr d \<Rightarrow> (case py_get d ''result'' (JArr []) of
                    Inl e \<Rightarrow> Inl e
                  | Inr r \<Rightarrow> py_len r))"

definition get_loki_logs :: "loki_reply \<Rightarrow> json" where
  "get_loki_logs reply =
     (case reply of
        RaisedRequestException msg \<Rightarrow> JObj [(''error'', JStr (''Network error: '' @ msg))]
      | RaisedJSONDecodeError msg \<Rightarrow> JObj [(''error'', JStr (''JSON parsing error: '' @ msg))]
      | RaisedOther msg \<Rightarrow> JObj [(''error'', JStr (''Unexpected error: '' @ msg))]
      | ReplyJson data \<Rightarrow>
          (case printed_results data of
             Inl e \<Rightarrow> JObj [(''error'', JStr (''Unexpected error: '' @ exception_text e))]
           | Inr n \<Rightarrow> data))"

section \<open>network\_analyzer.py: the network analyzer\<close>

text \<open>Python's \<open>a / b\<close> on numbers raises when \<open>b\<close> is zero.\<close>

definition py_truediv :: "real \<Rightarrow> real \<Rightarrow> py_exception + real" where
  "py_truediv a b = (if b = 0 then Inl ZeroDivisionError else Inr (a / b))"

text \<open>
  The mean of a list that is not empty (every caller checks that it is not), which
  \<open>statistics.mean\<close> returns rounded to a float; the network summary is read
  without that rounding.
\<close>

definition mean :: "real list \<Rightarrow> real" where
  "mean xs = sum_list xs / real (length xs)"

text \<open>
  What the three probes return. \<open>ping_service\<close>, \<open>http_response_time\<close> and
  \<open>check_dns_resolution\<close> catch every exception and turn it into a result that is not
  available, so a probe is a function from the target to its result, given by the
  network of the run.
\<close>

record ping_result =
  ping_target :: string
  ping_available :: bool
  ping_response_times :: "real list"
  ping_avg_time :: real
  ping_packet_loss :: nat

record http_result =
  http_url :: string
  http_available :: bool
  http_response_time_ms :: real

record dns_result =
  dns_hostname :: string
  dns_resolved :: bool
  dns_resolution_time_ms :: real

record network_env =
  ping_service :: "string \<Rightarrow> ping_result"
  http_response_time :: "string \<Rightarrow> http_result"
  check_dns_resolution :: "string \<Rightarrow> dns_result"
  ne_now :: clock

record network_summary =
  ping_availability :: real
  http_availability :: real
  dns_availability :: real
  avg_ping_time :: real
  avg_http_time :: real
  avg_dns_time :: real
  total_checks :: nat

record network_report =
  nr_timestamp :: clock
  ping_results :: "ping_result list"
  http_results :: "http_result list"
  dns_results :: "dns_result list"
  nr_summary :: network_summary

text \<open>The list \<open>NetworkAnalyzer.__init__\<close> stores in \<open>self.target_services\<close>.\<close>

definition target_services :: "string list" where
  "target_services =
     [''http://localhost:5000'', ''http://localhost:9090'', ''http://localhost:3100'',
      ''http://localhost:3000'', ''8.8.8.8'', ''1.1.1.1'']"

definition dns_hosts :: "string list" where
  "dns_hosts = [''google.com'', ''github.com'', ''docker.com'']"

text \<open>
  \<open>analyze_network_health\<close>, for the target list \<open>targets\<close> that
  \<open>self.target_services\<close> holds. The three divisions of the summary are evaluated in
  the order of the dict literal; the first that raises ends the call.
\<close>

definition analyze_network_health ::
  "string list \<Rightarrow> network_env \<Rightarrow> py_exception + network_report" where
  "analyze_network_health targets env =
     (let pings = map (ping_service env) (filter (\<lambda>t. \<not> startswith t ''http'') targets);
          available_pings = length (filter ping_available pings);
          ping_times = map ping_avg_time (filter ping_available pings);
          https = map (http_response_time env) (filter (\<lambda>t. startswith t ''http'') targets);
          available_http = length (filter http_available https);
          http_times = map http_response_time_ms (filter http_available https);
          dnss = map (check_dns_resolution env) dns_hosts;
          resolved_dns = length (filter dns_resolved dnss);
          dns_times = map dns_resolution_time_ms (filter dns_resolved dnss)
      in case py_truediv (real available_pings)
                (real (length (filter (\<lambda>t. \<not> startswith t ''http'') targets))) of
           Inl e \<Rightarrow> Inl e
         | Inr ping_ratio \<Rightarrow>
        (case py_truediv (real available_http)
                (real (length (filter (\<lambda>t. startswith t ''http'') targets))) of
           Inl e \<Rightarrow> Inl e
         | Inr http_ratio \<Rightarrow>
        (case py_truediv (real resolved_dns) (real (length dns_hosts)) of
           Inl e \<Rightarrow> Inl e
         | Inr dns_ratio \<Rightarrow>
             Inr \<lparr> nr_timestamp = ne_now env,
                   ping_results = pings,
                   http_results = https,
                   dns_results = dnss,
                   nr_summary =
                     \<lparr> ping_availability = ping_ratio * 100,
                       http_availability = http_ratio * 100,
                       dns_availability = dns_ratio * 100,
                       avg_ping_time = (if ping_times \<noteq> [] then mean ping_times else 0),
                       avg_http_time = (if http_times \<noteq> [] then mean http_times else 0),
                       avg_dns_time = (if dns_times \<noteq> [] then mean dns_times else 0),
                       total_checks = length targets + length dns_hosts \<rparr> \<rparr>)))"

section \<open>insight\_generator.py: trend detection\<close>

text \<open>
  The metrics dict of \<open>get_container_metrics\<close>, whose values are lists of finite
  floats; \<open>metrics.get(key, [])\<close> reads a missing key as the empty list.
  \<open>format_1f\<close> is the rendering \<open>{x:.1f}\<close> of a number that is not negative: one
  decimal, ties to the even digit.
\<close>

record metrics =
  app_requests :: "real list"
  app_errors :: "real list"
  app_memory :: "real list"
  app_cpu :: "real list"

definition format_1f :: "real \<Rightarrow> string" where
  "format_1f x =
     (let t = nat (round_half_even (x * 10))
      in str_nat (t div 10) @ ''.'' @ str_nat (t mod 10))"

text \<open>
  \<open>statistics.mean\<close> of a list of floats that is not empty: it sums the samples
  exactly, as fractions, and converts the exact quotient to a float, so that the
  result is the exact mean rounded once.
\<close>

definition statistics_mean :: "real list \<Rightarrow> real" where
  "statistics_mean xs = py_float (sum_list xs / real (length xs))"

text \<open>\<open>xs[-3:]\<close>, \<open>any(xs)\<close> and \<open>max(xs)\<close> (of a list that is not empty).\<close>

definition last3 :: "'a list \<Rightarrow> 'a list" where
  "last3 xs = drop (length xs - 3) xs"

definition py_any :: "real list \<Rightarrow> bool" where
  "py_any xs = list_ex (\<lambda>x. x \<noteq> 0) xs"

definition py_max :: "real list \<Rightarrow> real" where
  "py_max xs = fold max (tl xs) (hd xs)"

text \<open>
  The literals \<open>1.3\<close>, \<open>0.7\<close> and \<open>0.1\<close> are the floats nearest to them, and
  \<open>0.5\<close> is a float; the products and the quotient are float operations.
\<close>

definition analyze_trends :: "metrics \<Rightarrow> string list" where
  "analyze_trends m =
     (let requests = app_requests m;
          t1 = (if length requests \<ge> 3 then
                  (let recent_avg = statistics_mean (last3 requests);
                       overall_avg = statistics_mean requests
                   in if recent_avg > float_mul overall_avg (py_float 1.3)
                        then [u_chart_with_upwards_trend @ '' Growing load: +30% above average'']
                      else if recent_avg < float_mul overall_avg (py_float 0.7)
                        then [u_chart_with_downwards_trend @ '' Load decrease: -30% below average'']
                      else [])
                else []);
          errors = app_errors m;
          t2 = (if py_any errors \<and> py_max errors > py_float 0.1
                then [u_large_red_circle @ '' Instability: high error rate''] else []);
          memory = app_memory m;
          t3 = (if memory \<noteq> [] then
                  (let max_memory_gb = float_div (py_max memory) (1024 ^ 3)
                   in if max_memory_gb > 0.5
                      then [u_floppy_disk @ '' High memory usage: up to ''
                              @ format_1f max_memory_gb @ ''GB'']
                      else [])
                else [])
      in t1 @ t2 @ t3)"

section \<open>master\_analyzer.py: the aggregator\<close>

subsection \<open>analyze\_system\_health\<close>

text \<open>
  \<open>get_system_metrics\<close> and \<open>get_container_metrics\<close> return a dict with the key
  \<open>error\<close> or one with the key \<open>output\<close> (the script's stdout) and its return code.
\<close>

datatype script_result = ScriptError string | ScriptOutput string int

definition has_output :: "script_result \<Rightarrow> bool" where
  "has_output r = (case r of ScriptOutput out rc \<Rightarrow> True | ScriptError e \<Rightarrow> False)"

record health_env =
  he_quick :: quick_env
  he_system_metrics :: script_result
  he_container_metrics :: script_result
  he_now :: clock

record health_data =
  hd_timestamp :: clock
  health_score :: int
  health_level :: string
  hd_quick_status :: quick_status
  system_metrics_available :: bool
  container_metrics_available :: bool

definition analyze_system_health :: "health_env \<Rightarrow> health_data" where
  "analyze_system_health env =
     (let quick_status = get_quick_status (he_quick env);
          system_metrics = he_system_metrics env;
          container_metrics = he_container_metrics env;
          total = services_total (qs_services quick_status);
          available = services_available (qs_services quick_status);
          score0 = 100;
          score1 = (if qs_status quick_status \<noteq> u_large_green_circle @ '' OK''
                    then score0 - 30 else score0);
          score2 = (if available < total then score1 - 20 * (total - available) else score1);
          score3 = (if containers_running (qs_containers quick_status)
                         < containers_expected (qs_containers quick_status)
                    then score2 - 15 else score2);
          level = (if score3 \<ge> 90 then ''EXCELLENT''
                   else if score3 \<ge> 70 then ''GOOD''
                   else if score3 \<ge> 50 then ''WARNING''
                   else ''CRITICAL'')
      in \<lparr> hd_timestamp = he_now env,
           health_score = score3,
           health_level = level,
           hd_quick_status = quick_status,
           system_metrics_available = has_output system_metrics,
           container_metrics_available = has_output container_metrics \<rparr>)"

subsection \<open>analyze\_performance\<close>

text \<open>
  \<open>get_detailed_report(use_ai=False)\<close> calls \<open>get_quick_status\<close> once more and adds
  the system metrics and its own running time to the dict.
\<close>

record perf_env =
  pe_quick :: quick_env
  pe_generation_time :: real
  pe_now :: clock

record performance_data =
  pd_timestamp :: clock
  response_time_ms :: real
  services_availability :: real
  containers_running_now :: int
  generation_time :: real
  performance_level :: string

definition analyze_performance :: "perf_env \<Rightarrow> py_exception + performance_data" where
  "analyze_performance env =
     (let detailed_report = get_quick_status (pe_quick env);
          ms = qs_response_time_ms detailed_report
      in case py_truediv (real_of_int (services_available (qs_services detailed_report)))
                         (real_of_int (services_total (qs_services detailed_report))) of
           Inl e \<Rightarrow> Inl e
         | Inr ratio \<Rightarrow>
             Inr \<lparr> pd_timestamp = pe_now env,
                   response_time_ms = ms,
                   services_availability = ratio * 100,
                   containers_running_now = containers_running (qs_containers detailed_report),
                   generation_time = pe_generation_time env,
                   performance_level =
                     (if ms > 1000 then ''SLOW''
                      else if ms > 500 then ''MODERATE''
                      else ''FAST'') \<rparr>)"

subsection \<open>analyze\_logs\_patterns\<close>

text \<open>
  The dict \<open>analyze_logs_patterns\<close> returns has three shapes with different keys; a
  key that is absent is \<open>None\<close> here.
\<close>

record logs_data =
  ld_timestamp :: clock
  ld_log_analysis :: "log_analysis option"
  ld_entries_analyzed :: "int option"
  ld_alert_level :: "string option"
  ld_detected_patterns :: "string list option"
  ld_query_used :: "string option"
  ld_error :: "json option"

text \<open>\<open>key in x\<close> and \<open>x[key]\<close> for a string key.\<close>

definition py_has_key :: "json \<Rightarrow> string \<Rightarrow> py_exception + bool" where
  "py_has_key x key =
     (case x of
        JObj d \<Rightarrow> Inr (map_of d key \<noteq> None)
      | JArr xs \<Rightarrow> Inr (JStr key \<in> set xs)
      | JStr t \<Rightarrow> Inr (contains t key)
      | _ \<Rightarrow> Inl TypeError)"

definition py_getitem :: "json \<Rightarrow> string \<Rightarrow> py_exception + json" where
  "py_getitem x key =
     (case x of
        JObj d \<Rightarrow> (case map_of d key of Some v \<Rightarrow> Inr v | None \<Rightarrow> Inl KeyError)
      | _ \<Rightarrow> Inl TypeError)"

text \<open>
  The two nested loops that append \<open>value[1]\<close> of every value of every result to
  \<open>log_entries\<close>. The list is changed in place, so what was appended before an
  exception stays appended: the functions return the list and the exception, if any.
\<close>

fun collect_values :: "json list \<Rightarrow> json list \<Rightarrow> json list \<times> py_exception option" where
  "collect_values [] log_entries = (log_entries, None)"
| "collect_values (v # vs) log_entries =
     (case py_index1 v of
        Inl e \<Rightarrow> (log_entries, Some e)
      | Inr x \<Rightarrow> collect_values vs (log_entries @ [x]))"

fun collect_results :: "json list \<Rightarrow> json list \<Rightarrow> json list \<times> py_exception option" where
  "collect_results [] log_entries = (log_entries, None)"
| "collect_results (r # rs) log_entries =
     (case py_get r ''values'' (JArr []) of
        Inl e \<Rightarrow> (log_entries, Some e)
      | Inr vals \<Rightarrow>
          (case py_iter vals of
             Inl e \<Rightarrow> (log_entries, Some e)
           | Inr vs \<Rightarrow>
               (case collect_values vs log_entries of
                  (log_entries', Some e) \<Rightarrow> (log_entries', Some e)
                | (log_entries', None) \<Rightarrow> collect_results rs log_entries')))"

definition collect_entries :: "json \<Rightarrow> json list \<Rightarrow> json list \<times> py_exception option" where
  "collect_entries data log_entries =
     (case py_get data ''data'' (JObj []) of
        Inl e \<Rightarrow> (log_entries, Some e)
      | Inr d \<Rightarrow>
          (case py_get d ''result'' (JArr []) of
             Inl e \<Rightarrow> (log_entries, Some e)
           | Inr res \<Rightarrow>
               (case py_iter res of
                  Inl e \<Rightarrow> (log_entries, Some e)
                | Inr rs \<Rightarrow> collect_results rs log_entries)))"

text \<open>
  The alternative queries, tried when the first query gave no entry. Each is answered
  by an exception or by a response with a status code and a body (\<open>None\<close> when the
  body is not JSON, so that \<open>response.json()\<close> raises). The loop stands in a
  \<open>try\<close> whose handler is \<open>pass\<close>: any exception ends it with the entries collected
  so far.
\<close>

datatype alt_outcome = AltRaised | AltResponse nat "json option"

definition alternative_queries :: "string list" where
  "alternative_queries =
     [''{job='' @ [CHR 0x22] @ ''containers'' @ [CHR 0x22] @ ''}'',
      ''{container='' @ [CHR 0x22] @ ''devops_app'' @ [CHR 0x22] @ ''}'',
      ''{app='' @ [CHR 0x22] @ ''devops'' @ [CHR 0x22] @ ''}'',
      ''{service!='' @ [CHR 0x22] @ [CHR 0x22] @ ''}'',
      ''{job=~'' @ [CHR 0x22] @ ''.+'' @ [CHR 0x22] @ ''}'']"

fun alternative_loop :: "(string \<Rightarrow> alt_outcome) \<Rightarrow> string list \<Rightarrow> json list \<Rightarrow> json list" where
  "alternative_loop reply [] log_entries = log_entries"
| "alternative_loop reply (query # rest) log_entries =
     (case reply query of
        AltRaised \<Rightarrow> log_entries
      | AltResponse status_code body \<Rightarrow>
          (if status_code = 200 then
             (case body of
                None \<Rightarrow> log_entries
              | Some data \<Rightarrow>
                  (case collect_entries data log_entries of
                     (log_entries', Some e) \<Rightarrow> log_entries'
                   | (log_entries', None) \<Rightarrow>
                       (if log_entries' \<noteq> [] then log_entries'
                        else alternative_loop reply rest log_entries')))
           else alternative_loop reply rest log_entries))"

text \<open>\<open>"\n".join(xs)\<close> raises unless every element is a string.\<close>

fun strings_of :: "json list \<Rightarrow> py_exception + string list" where
  "strings_of [] = Inr []"
| "strings_of (x # xs) =
     (case x of
        JStr t \<Rightarrow> (case strings_of xs of Inl e \<Rightarrow> Inl e | Inr ts \<Rightarrow> Inr (t # ts))
      | _ \<Rightarrow> Inl TypeError)"

definition join_lines :: "json list \<Rightarrow> py_exception + string" where
  "join_lines xs = (case strings_of xs of Inl e \<Rightarrow> Inl e | Inr ts \<Rightarrow> Inr (join [CHR 0x0A] ts))"

text \<open>
  The surroundings of one call: whether \<open>from smart_analyzer import LogAnalyzer\<close>
  succeeds, what Loki answers to the first query and to the alternative ones, and the
  clock readings.
\<close>

record logs_env =
  le_import_ok :: bool
  le_loki_reply :: loki_reply
  le_alt_reply :: "string \<Rightarrow> alt_outcome"
  le_analysis_time :: clock
  le_now :: clock

text \<open>The body of the outer \<open>try\<close>: \<open>Inl e\<close> when it raises \<open>e\<close>.\<close>

definition logs_try_body :: "logs_env \<Rightarrow> py_exception + logs_data" where
  "logs_try_body env =
     (if \<not> le_import_ok env then Inl ImportError
      else
        (let logs_data = get_loki_logs (le_loki_reply env)
         in case py_has_key logs_data ''error'' of
              Inl e \<Rightarrow> Inl e
            | Inr has_error \<Rightarrow>
                if \<not> has_error then
                  (case collect_entries logs_data [] of
                     (collected, Some e) \<Rightarrow> Inl e
                   | (collected, None) \<Rightarrow>
                       (let log_entries =
                              (if collected = []
                               then alternative_loop (le_alt_reply env) alternative_queries collected
                               else collected)
                        in case join_lines (take 50 log_entries) of
                             Inl e \<Rightarrow> Inl e
                           | Inr logs_text \<Rightarrow>
                               (let analysis = analyze_with_patterns (le_analysis_time env) logs_text
                                in Inr \<lparr> ld_timestamp = le_now env,
                                         ld_log_analysis = Some analysis,
                                         ld_entries_analyzed = Some (int (length log_entries)),
                                         ld_alert_level = Some (alert_level analysis),
                                         ld_detected_patterns = Some (detected_patterns analysis),
                                         ld_query_used =
                                           Some (if log_entries \<noteq> [] then ''alternative''
                                                 else ''original''),
                                         ld_error = None \<rparr>)))
                else
                  (case py_getitem logs_data ''error'' of
                     Inl e \<Rightarrow> Inl e
                   | Inr err \<Rightarrow>
                       Inr \<lparr> ld_timestamp = le_now env,
                             ld_log_analysis = None,
                             ld_entries_analyzed = Some 0,
                             ld_alert_level = Some ''UNKNOWN'',
                             ld_detected_patterns = None,
                             ld_query_used = None,
                             ld_error = Some err \<rparr>)))"

definition analyze_logs_patterns :: "logs_env \<Rightarrow> logs_data" where
  "analyze_logs_patterns env =
     (case logs_try_body env of
        Inr result \<Rightarrow> result
      | Inl e \<Rightarrow>
          \<lparr> ld_timestamp = le_now env,
            ld_log_analysis = None,
            ld_entries_analyzed = Some 0,
            ld_alert_level = Some ''ERROR'',
            ld_detected_patterns = None,
            ld_query_used = None,
            ld_error = Some (JStr (''Log analysis failed: '' @ exception_text e)) \<rparr>)"

subsection \<open>analyze\_network\<close>

text \<open>
  The network dict: \<open>analyze_network\<close> returns the analyzer's report, or, when the
  import or the analyzer raised, a dict with the key \<open>error\<close>.
\<close>

datatype network_data = NetworkError clock py_exception | NetworkReport network_report

definition analyze_network :: "bool \<Rightarrow> network_env \<Rightarrow> clock \<Rightarrow> network_data" where
  "analyze_network import_ok env now =
     (if \<not> import_ok then NetworkError now ImportError
      else (case analyze_network_health target_services env of
              Inl e \<Rightarrow> NetworkError now e
            | Inr report \<Rightarrow> NetworkReport report))"

subsection \<open>The overall status\<close>

definition get_network_status :: "network_data \<Rightarrow> string" where
  "get_network_status network_data =
     (case network_data of
        NetworkError t e \<Rightarrow> ''UNKNOWN''
      | NetworkReport r \<Rightarrow>
          (let availability = http_availability (nr_summary r)
           in if availability \<ge> 95 then ''EXCELLENT''
              else if availability \<ge> 80 then ''GOOD''
              else if availability \<ge> 60 then ''WARNING''
              else ''CRITICAL''))"

text \<open>
  The weight table of \<open>_calculate_overall_status\<close> and its four local variables,
  each a definition of its own.
\<close>

definition status_weights :: "(string \<times> int) list" where
  "status_weights =
     [(''CRITICAL'', 4), (''ERROR'', 3), (''WARNING'', 2), (''GOOD'', 1),
      (''EXCELLENT'', 0), (''UNKNOWN'', 1)]"

definition health_weight :: "health_data \<Rightarrow> int" where
  "health_weight health = dict_get status_weights (health_level health) 2"

definition perf_weight :: "performance_data \<Rightarrow> int" where
  "perf_weight performance = (if performance_level performance = ''SLOW'' then 2 else 0)"

definition logs_weight :: "logs_data \<Rightarrow> int" where
  "logs_weight logs =
     dict_get status_weights
       (case ld_alert_level logs of Some level \<Rightarrow> level | None \<Rightarrow> ''INFO'') 1"

definition network_weight :: "network_data \<Rightarrow> int" where
  "network_weight network = dict_get status_weights (get_network_status network) 1"

definition total_weight ::
  "health_data \<Rightarrow> performance_data \<Rightarrow> logs_data \<Rightarrow> network_data \<Rightarrow> int" where
  "total_weight health performance logs network =
     health_weight health + perf_weight performance + logs_weight logs + network_weight network"

definition calculate_overall_status ::
  "health_data \<Rightarrow> performance_data \<Rightarrow> logs_data \<Rightarrow> network_data \<Rightarrow> string" where
  "calculate_overall_status health performance logs network =
     (if total_weight health performance logs network \<ge> 6 then u_large_red_circle @ '' CRITICAL''
      else if total_weight health performance logs network \<ge> 4
        then u_large_yellow_circle @ '' WARNING''
      else u_large_green_circle @ '' NORMAL'')"

subsection \<open>The recommendations\<close>

definition generate_recommendations ::
  "health_data \<Rightarrow> performance_data \<Rightarrow> logs_data \<Rightarrow> string list" where
  "generate_recommendations health performance logs =
     (let score = health_score health;
          r_health =
            (if score = 100
               then [u_direct_hit @ '' Maintain current configuration - system perfect'']
             else if score \<ge> 90
               then [u_chart_with_upwards_trend
                       @ '' Consider business metrics monitoring for proactive management'']
             else if score \<ge> 70
               then [u_wrench @ '' Conduct preventive system inspection'']
             else []);
          r_perf =
            (if performance_level performance = ''FAST''
               then [u_high_voltage_sign @ '' Performance optimal - maintain current settings'']
             else if performance_level performance = ''SLOW''
               then [u_snail @ '' Optimize database settings and caching'']
             else []);
          entries_analyzed = (case ld_entries_analyzed logs of Some n \<Rightarrow> n | None \<Rightarrow> 0);
          r_logs =
            (if entries_analyzed > 0 then
               (let log_level = (case ld_alert_level logs of Some l \<Rightarrow> l | None \<Rightarrow> ''INFO'')
                in (if log_level = ''ERROR''
                      then [u_police_cars_revolving_light @ '' Urgently investigate errors in logs'']
                    else if log_level = ''WARNING''
                      then [u_warning_sign @ u_variation_selector_16
                              @ '' Attention: warnings present in logs'']
                    else [u_memo @ '' Logs clean - excellent system operation''])
                   @ (if entries_analyzed > 50
                        then [u_bar_chart @ '' Consider log rotation to save space'']
                      else []))
             else [u_wrench @ '' Configure Loki for application log collection'']);
          r_patterns =
            (case ld_detected_patterns logs of
               None \<Rightarrow> []
             | Some pats \<Rightarrow>
                 (if pats \<noteq> [] then
                    (if ''database_errors'' \<in> set pats
                       then [u_file_cabinet @ u_variation_selector_16 @ '' Check database connections'']
                     else [])
                    @ (if ''performance_issues'' \<in> set pats
                         then [u_high_voltage_sign @ '' Analyze slow queries'']
                       else [])
                  else []));
          r_all =
            (if score = 100 \<and> performance_level performance = ''FAST''
                \<and> (ld_alert_level logs = Some ''INFO'' \<or> ld_alert_level logs = None)
                \<and> entries_analyzed > 0
               then [u_trophy
                       @ '' System operating perfectly! Recommend documenting configuration'']
             else [])
      in r_health @ r_perf @ r_logs @ r_patterns @ r_all)"

subsection \<open>The static insights and the report\<close>

text \<open>
  The dict of insights has three shapes: \<open>{'ai_available': False}\<close>, the answer of
  the text-generation backend, and the static insights. A key that is absent is
  \<open>None\<close> (\<open>False\<close> for \<open>static_insights\<close>, which is read with \<open>get\<close>).
\<close>

record insights_data =
  ai_available :: bool
  static_insights :: bool
  id_timestamp :: "clock option"
  insights :: "string option"
  model_used :: "string option"
  response_time :: "string option"
  id_note :: "string option"

text \<open>The list \<open>insights\<close> that \<open>_get_static_insights\<close> builds before it joins it.\<close>

definition static_insight_lines ::
  "health_data \<Rightarrow> performance_data \<Rightarrow> logs_data \<Rightarrow> string list" where
  "static_insight_lines health_data performance_data logs_data =
     (let i_health =
            (if health_level health_data = ''EXCELLENT'' then
               [u_white_heavy_check_mark
                  @ '' System in excellent condition: all services available, containers running'',
                u_bar_chart @ '' Consider configuring auto-scaling to maintain performance'']
             else if health_level health_data = ''GOOD'' then
               [u_warning_sign @ u_variation_selector_16
                  @ '' System stable, but recommend checking logs for hidden issues'',
                u_wrench @ '' Consider optimizing resource consumption'']
             else
               [u_police_cars_revolving_light
                  @ '' Immediate attention required! Critical system issues'',
                u_clipboard @ '' Check Docker containers and service configurations'']);
          i_perf =
            (if performance_level performance_data = ''FAST'' then
               [u_high_voltage_sign @ '' Performance optimal, response time normal'']
             else if performance_level performance_data = ''SLOW'' then
               [u_snail
                  @ '' Performance degraded, recommend code and configuration optimization'',
                u_floppy_disk @ '' Check memory and CPU usage'']
             else []);
          entries_analyzed =
            (case ld_entries_analyzed logs_data of Some n \<Rightarrow> n | None \<Rightarrow> 0);
          i_logs =
            (if entries_analyzed > 10 then
               [u_memo @ '' System generating stable log stream (''
                  @ str_int entries_analyzed @ '' entries)'']
             else if entries_analyzed > 0 then
               [u_memo @ '' Low log activity, system running stable'']
             else [u_wrench @ '' Configure log collection for complete monitoring'']);
          i_patterns =
            (case ld_detected_patterns logs_data of
               None \<Rightarrow> []
             | Some pats \<Rightarrow>
                 (if pats \<noteq> [] then
                    (if ''application_errors'' \<in> set pats then
                       [u_police_cars_revolving_light
                          @ '' Application errors detected - check code and dependencies'']
                     else [])
                    @ (if ''performance_issues'' \<in> set pats then
                         [u_high_voltage_sign @ '' Performance issues identified - optimize queries'']
                       else [])
                    @ (if ''security_issues'' \<in> set pats then
                         [u_lock @ '' Security issues detected - check authentication'']
                       else [])
                  else []))
      in i_health @ i_perf @ i_logs @ i_patterns)"

definition get_static_insights ::
  "clock \<Rightarrow> health_data \<Rightarrow> performance_data \<Rightarrow> logs_data \<Rightarrow> insights_data" where
  "get_static_insights now health_data performance_data logs_data =
     \<lparr> ai_available = False,
       static_insights = True,
       id_timestamp = Some now,
       insights = Some (join ('' '' @ u_bullet @ '' '')
                          (static_insight_lines health_data performance_data logs_data)),
       model_used = None,
       response_time = None,
       id_note = Some ''AI unavailable, used intelligent static recommendations'' \<rparr>"

text \<open>
  \<open>generate_master_report\<close> calls the four analyzers and the insight engine and
  folds what they return into the report. The values returned are the fields of
  \<open>report_inputs\<close>, with the two clock readings of the function itself.
\<close>

record report_inputs =
  ri_health :: health_data
  ri_performance :: performance_data
  ri_logs :: logs_data
  ri_network :: network_data
  ri_ai_insights :: insights_data
  ri_id_time :: clock
  ri_now :: clock

record report_summary =
  sum_health :: string
  sum_performance :: string
  sum_logs_alert :: string
  sum_network :: string
  sum_overall_status :: string

record report_details =
  health_analysis :: health_data
  performance_analysis :: performance_data
  logs_analysis :: logs_data
  network_analysis :: network_data
  ai_insights :: insights_data

record master_report =
  report_id :: clock
  mr_timestamp :: clock
  mr_summary :: report_summary
  mr_details :: report_details
  recommendations :: "string list"

definition generate_master_report :: "report_inputs \<Rightarrow> master_report" where
  "generate_master_report inp =
     (let health_data = ri_health inp;
          performance_data = ri_performance inp;
          logs_data = ri_logs inp;
          network_data = ri_network inp
      in \<lparr> report_id = ri_id_time inp,
           mr_timestamp = ri_now inp,
           mr_summary =
             \<lparr> sum_health = health_level health_data,
               sum_performance = performance_level performance_data,
               sum_logs_alert =
                 (case ld_alert_level logs_data of Some l \<Rightarrow> l | None \<Rightarrow> ''UNKNOWN''),
               sum_network = get_network_status network_data,
               sum_overall_status =
                 calculate_overall_status health_data performance_data logs_data network_data \<rparr>,
           mr_details =
             \<lparr> health_analysis = health_data,
               performance_analysis = performance_data,
               logs_analysis = logs_data,
               network_analysis = network_data,
               ai_insights = ri_ai_insights inp \<rparr>,
           recommendations = generate_recommendations health_data performance_data logs_data \<rparr>)"

section \<open>Example runs\<close>

text \<open>
  Concrete surroundings, used to instantiate the theorems below. In
  \<open>run_two_down\<close> Loki answers 503 and Grafana does not answer, and three
  containers run; in \<open>run_all_up\<close> everything answers and four containers run; in
  \<open>run_answering n\<close> the first \<open>n\<close> of the four endpoints answer 200 and the
  others 503.
\<close>

definition run_answering :: "nat \<Rightarrow> quick_env" where
  "run_answering n =
     \<lparr> env_app = Responded (if 0 < n then 200 else 503),
       env_prometheus = Responded (if 1 < n then 200 else 503),
       env_loki = Responded (if 2 < n then 200 else 503),
       env_grafana = Responded (if 3 < n then 200 else 503),
       env_docker_stdout = None,
       env_start_time = 0, env_stamp_time = 0, env_end_time = 0 \<rparr>"

definition run_two_down :: quick_env where
  "run_two_down =
     \<lparr> env_app = Responded 200, env_prometheus = Responded 200,
       env_loki = Responded 503, env_grafana = RequestRaised,
       env_docker_stdout = Some (''a1b2'' @ [CHR 0x0A] @ ''c3d4'' @ [CHR 0x0A] @ ''e5f6'' @ [CHR 0x0A]),
       env_start_time = 0, env_stamp_time = 1 / 10, env_end_time = 1 / 5 \<rparr>"

definition run_all_up :: quick_env where
  "run_all_up =
     \<lparr> env_app = Responded 200, env_prometheus = Responded 200,
       env_loki = Responded 200, env_grafana = Responded 200,
       env_docker_stdout =
         Some (''a1b2'' @ [CHR 0x0A] @ ''c3d4'' @ [CHR 0x0A] @ ''e5f6'' @ [CHR 0x0A] @ ''0789'' @ [CHR 0x0A]),
       env_start_time = 0, env_stamp_time = 1 / 10, env_end_time = 1 / 5 \<rparr>"

text \<open>
  The analyzer outputs of a run in which the health analysis sees \<open>run_two_down\<close>,
  the response is fast, the logs hold one clean entry and every network target
  answers; and two reports of that run that differ in the insights and the clock only.
\<close>

definition health_env_two_down :: health_env where
  "health_env_two_down =
     \<lparr> he_quick = run_two_down,
       he_system_metrics = ScriptError ''metrics_system.sh not found'',
       he_container_metrics = ScriptOutput ''devops_app 1.2%'' 0,
       he_now = 3 / 10 \<rparr>"

definition health_two_down :: health_data where
  "health_two_down = analyze_system_health health_env_two_down"

definition performance_fast :: performance_data where
  "performance_fast =
     \<lparr> pd_timestamp = 1 / 2, response_time_ms = 200, services_availability = 50,
       containers_running_now = 3, generation_time = 1 / 5, performance_level = ''FAST'' \<rparr>"

definition logs_clean :: logs_data where
  "logs_clean =
     \<lparr> ld_timestamp = 1, ld_log_analysis = None,
       ld_entries_analyzed = Some 1, ld_alert_level = Some ''INFO'',
       ld_detected_patterns = Some [], ld_query_used = Some ''alternative'', ld_error = None \<rparr>"

definition network_all_up :: network_data where
  "network_all_up =
     NetworkReport
       \<lparr> nr_timestamp = 2, ping_results = [], http_results = [], dns_results = [],
         nr_summary = \<lparr> ping_availability = 100, http_availability = 100,
                        dns_availability = 100, avg_ping_time = 12, avg_http_time = 30,
                        avg_dns_time = 8, total_checks = 9 \<rparr> \<rparr>"

definition inputs_static :: report_inputs where
  "inputs_static =
     \<lparr> ri_health = health_two_down, ri_performance = performance_fast,
       ri_logs = logs_clean, ri_network = network_all_up,
       ri_ai_insights = get_static_insights 3 health_two_down performance_fast logs_clean,
       ri_id_time = 4, ri_now = 4 \<rparr>"

definition inputs_ai :: report_inputs where
  "inputs_ai =
     \<lparr> ri_health = health_two_down, ri_performance = performance_fast,
       ri_logs = logs_clean, ri_network = network_all_up,
       ri_ai_insights =
         \<lparr> ai_available = True, static_insights = False, id_timestamp = Some 7,
           insights = Some ''Restart Loki and Grafana.'', model_used = Some ''tinyllama:latest'',
           response_time = Some ''fast'', id_note = None \<rparr>,
       ri_id_time = 8, ri_now = 9 \<rparr>"

text \<open>
  A text of five whitespace characters: a space, a no-break space (U+00A0), a newline,
  an ideographic space (U+3000) and a tab.
\<close>

definition blank_text :: string where
  "blank_text = [CHR 0x20, CHR 0xC2, CHR 0xA0, CHR 0x0A, CHR 0xE3, CHR 0x80, CHR 0x80, CHR 0x09]"

text \<open>
  Three request series at a boundary. In \<open>metrics_at_boundary\<close>
  (\<open>[61]*7 + [91]*3\<close>) and in \<open>metrics_growth_at_boundary\<close>
  (\<open>[5]*9 + [4]*27 + [6, 6, 5]\<close>) the last three samples average exactly 1.3 times
  the average of all; in \<open>metrics_decline_at_boundary\<close>
  (\<open>[21]*9 + [20]*9 + [14, 14, 13]\<close>) they average exactly 0.7 times the average
  of all.
\<close>

definition metrics_at_boundary :: metrics where
  "metrics_at_boundary =
     \<lparr> app_requests = [61, 61, 61, 61, 61, 61, 61, 91, 91, 91],
       app_errors = [0], app_memory = [0], app_cpu = [0] \<rparr>"

definition metrics_growth_at_boundary :: metrics where
  "metrics_growth_at_boundary =
     \<lparr> app_requests = replicate 9 5 @ replicate 27 4 @ [6, 6, 5],
       app_errors = [0], app_memory = [0], app_cpu = [0] \<rparr>"

definition metrics_decline_at_boundary :: metrics where
  "metrics_decline_at_boundary =
     \<lparr> app_requests = replicate 9 21 @ replicate 9 20 @ [14, 14, 13],
       app_errors = [0], app_memory = [0], app_cpu = [0] \<rparr>"

text \<open>
  A run in which Loki is unreachable, and one in which its answer is malformed
  (a result that is a number); a network in which every probe succeeds, and a target
  list without a host to ping.
\<close>

definition logs_env_unreachable :: logs_env where
  "logs_env_unreachable =
     \<lparr> le_import_ok = True,
       le_loki_reply = RaisedRequestException ''Connection refused'',
       le_alt_reply = (\<lambda>query. AltRaised),
       le_analysis_time = 1, le_now = 2 \<rparr>"

definition logs_env_malformed :: logs_env where
  "logs_env_malformed =
     \<lparr> le_import_ok = True,
       le_loki_reply = ReplyJson (JObj [(''data'', JObj [(''result'', JArr [JNum 5])])]),
       le_alt_reply = (\<lambda>query. AltRaised),
       le_analysis_time = 1, le_now = 2 \<rparr>"

definition network_env_all_up :: network_env where
  "network_env_all_up =
     \<lparr> ping_service = (\<lambda>t. \<lparr> ping_target = t, ping_available = True,
                               ping_response_times = [11, 12, 13], ping_avg_time = 12,
                               ping_packet_loss = 0 \<rparr>),
       http_response_time = (\<lambda>u. \<lparr> http_url = u, http_available = True,
                                     http_response_time_ms = 30 \<rparr>),
       check_dns_resolution = (\<lambda>h. \<lparr> dns_hostname = h, dns_resolved = True,
                                       dns_resolution_time_ms = 8 \<rparr>),
       ne_now = 2 \<rparr>"

definition targets_http_only :: "string list" where
  "targets_http_only = [''http://localhost:5000'']"

section \<open>Properties\<close>

subsection \<open>The quick status\<close>

lemma services_available_range:
  "0 \<le> services_available (qs_services (get_quick_status env)) \<and>
   services_available (qs_services (get_quick_status env)) \<le> 4"
  by (simp add: get_quick_status_def bool_int_def)

lemma status_by_count:
  "qs_status (get_quick_status env) =
     (let n = services_available (qs_services (get_quick_status env))
      in if n = 4 then u_large_green_circle @ '' OK''
         else if n \<ge> 2 then u_large_yellow_circle @ '' PARTIAL''
         else u_large_red_circle @ '' CRITICAL'')"
  by (simp add: get_quick_status_def Let_def)

lemma available_is_count:
  "services_available (qs_services (get_quick_status env))
     = int (length (filter (\<lambda>answer. answer = Responded 200)
                      [env_app env, env_prometheus env, env_loki env, env_grafana env]))"
  by (simp add: get_quick_status_def fast_curl_check_def bool_int_def
           split: http_outcome.splits)

lemma available_run_answering:
  "services_available (qs_services (get_quick_status (run_answering n))) = int (min n 4)"
  by (simp add: available_is_count run_answering_def min_def)

lemma available_values:
  "range (\<lambda>e. services_available (qs_services (get_quick_status e))) = {0..4}"
proof
  show "range (\<lambda>e. services_available (qs_services (get_quick_status e))) \<subseteq> {0..4}"
    using services_available_range by auto
  show "{0..4} \<subseteq> range (\<lambda>e. services_available (qs_services (get_quick_status e)))"
  proof
    fix k :: int
    assume "k \<in> {0..4}"
    then have "services_available (qs_services (get_quick_status (run_answering (nat k)))) = k"
      by (auto simp: available_run_answering min_def)
    then show "k \<in> range (\<lambda>e. services_available (qs_services (get_quick_status e)))"
      by (metis rangeI)
  qed
qed

text \<open>
  C1. The quick status reports a total of 4 services, and as available the number of
  the four endpoints (application, Prometheus, Loki, Grafana) that answered 200; every
  number from 0 to 4 occurs. The status depends on that number only: it is OK exactly
  when all are available, PARTIAL exactly when at least half but not all are, CRITICAL
  exactly when fewer than half are; and of two runs, the one with at least as many
  available services has a status that is at most as severe.
\<close>

theorem quick_status_severity:
  fixes env env' :: quick_env
  defines "r \<equiv> get_quick_status env" and "r' \<equiv> get_quick_status env'"
  defines "available \<equiv> services_available (qs_services r)"
      and "tot \<equiv> services_total (qs_services r)"
  shows "tot = 4
       \<and> available = int (length (filter (\<lambda>answer. answer = Responded 200)
                          [env_app env, env_prometheus env, env_loki env, env_grafana env]))
       \<and> range (\<lambda>e. services_available (qs_services (get_quick_status e))) = {0..4}
       \<and> 0 \<le> available \<and> available \<le> tot
       \<and> (qs_status r = u_large_green_circle @ '' OK'' \<longleftrightarrow> available = tot)
       \<and> (qs_status r = u_large_yellow_circle @ '' PARTIAL'' \<longleftrightarrow>
              2 * available \<ge> tot \<and> available \<noteq> tot)
       \<and> (qs_status r = u_large_red_circle @ '' CRITICAL'' \<longleftrightarrow> 2 * available < tot)
       \<and> (available \<le> services_available (qs_services r') \<longrightarrow>
              quick_severity (qs_status r') \<le> quick_severity (qs_status r))"
proof -
  have range: "0 \<le> available \<and> available \<le> 4"
    unfolding available_def r_def by (rule services_available_range)
  have tot: "tot = 4"
    by (simp add: tot_def r_def get_quick_status_def Let_def)
  have cnt: "available = int (length (filter (\<lambda>answer. answer = Responded 200)
                          [env_app env, env_prometheus env, env_loki env, env_grafana env]))"
    unfolding available_def r_def by (rule available_is_count)
  have st: "qs_status r = (if available = 4 then u_large_green_circle @ '' OK''
         else if available \<ge> 2 then u_large_yellow_circle @ '' PARTIAL''
         else u_large_red_circle @ '' CRITICAL'')"
    unfolding available_def r_def using status_by_count [of env] by (simp add: Let_def)
  have st': "qs_status r' =
        (if services_available (qs_services r') = 4 then u_large_green_circle @ '' OK''
         else if services_available (qs_services r') \<ge> 2 then u_large_yellow_circle @ '' PARTIAL''
         else u_large_red_circle @ '' CRITICAL'')"
    unfolding r'_def using status_by_count [of env'] by (simp add: Let_def)
  have range': "services_available (qs_services r') \<le> 4"
    unfolding r'_def using services_available_range [of env'] by simp
  have rest: "0 \<le> available \<and> available \<le> tot
       \<and> (qs_status r = u_large_green_circle @ '' OK'' \<longleftrightarrow> available = tot)
       \<and> (qs_status r = u_large_yellow_circle @ '' PARTIAL'' \<longleftrightarrow>
              2 * available \<ge> tot \<and> available \<noteq> tot)
       \<and> (qs_status r = u_large_red_circle @ '' CRITICAL'' \<longleftrightarrow> 2 * available < tot)
       \<and> (available \<le> services_available (qs_services r') \<longrightarrow>
              quick_severity (qs_status r') \<le> quick_severity (qs_status r))"
    using range range' by (auto simp add: tot st st' quick_severity_def)
  show ?thesis
    using tot cnt available_values rest by blast
qed

theorem quick_status_severity_witness:
  "services_available (qs_services (get_quick_status run_two_down)) = 2
   \<and> services_available (qs_services (get_quick_status run_all_up)) = 4
   \<and> services_available (qs_services (get_quick_status run_two_down))
     \<le> services_available (qs_services (get_quick_status run_all_up))
   \<and> quick_severity (qs_status (get_quick_status run_all_up))
     \<le> quick_severity (qs_status (get_quick_status run_two_down))
   \<and> qs_status (get_quick_status run_two_down) = u_large_yellow_circle @ '' PARTIAL''
   \<and> qs_status (get_quick_status run_all_up) = u_large_green_circle @ '' OK''"
proof -
  have n2: "services_available (qs_services (get_quick_status run_two_down)) = 2"
    by (simp add: available_is_count run_two_down_def)
  have n4: "services_available (qs_services (get_quick_status run_all_up)) = 4"
    by (simp add: available_is_count run_all_up_def)
  from quick_status_severity [of run_two_down run_all_up]
       quick_status_severity [of run_all_up run_two_down] n2 n4
  show ?thesis by simp
qed

subsection \<open>The aggregator\<close>

lemma weight_nonneg: "0 \<le> d \<Longrightarrow> 0 \<le> dict_get status_weights k d"
  by (simp add: dict_get_def status_weights_def)

lemma other_weights_nonneg:
  "0 \<le> perf_weight p" "0 \<le> logs_weight l" "0 \<le> network_weight n"
  by (simp_all add: perf_weight_def logs_weight_def network_weight_def weight_nonneg)

lemma join_nonempty: "x \<noteq> [] \<Longrightarrow> join sep (x # xs) \<noteq> []"
  by (cases xs) auto

lemma lines_shape: "\<exists>x xs. static_insight_lines h p l = x # xs \<and> x \<noteq> []"
  by (simp add: static_insight_lines_def Let_def)

lemma lines_length: "3 \<le> length (static_insight_lines h p l)"
  by (simp add: static_insight_lines_def Let_def)

text \<open>
  C10. The recommendation list is never empty, whatever the health score, the
  performance level, the number of log entries, the alert level and the detected
  patterns are: the log branch adds an entry on both of its sides.
\<close>

theorem recommendations_nonempty:
  "generate_recommendations health performance logs \<noteq> []"
  by (simp add: generate_recommendations_def Let_def)

text \<open>
  C7. The static insights are total: for every health level, performance level, number
  of log entries and set of detected patterns the list of insight lines has at least
  three entries, and the string they are joined to is not empty.
\<close>

theorem static_insights_nonempty:
  "3 \<le> length (static_insight_lines health_data performance_data logs_data)
   \<and> (\<exists>text. insights (get_static_insights now health_data performance_data logs_data) = Some text
              \<and> text \<noteq> [])"
proof -
  obtain x xs where "static_insight_lines health_data performance_data logs_data = x # xs"
      and "x \<noteq> []"
    using lines_shape by blast
  then have "join ('' '' @ u_bullet @ '' '')
               (static_insight_lines health_data performance_data logs_data) \<noteq> []"
    using join_nonempty by metis
  then show ?thesis
    using lines_length by (simp add: get_static_insights_def)
qed

text \<open>
  C3. The overall status and the recommendation list of a report are functions of the
  four analyzer outputs: two runs whose health, performance, log and network outputs
  agree have the same overall status and the same recommendations in the same order,
  whatever the insight engine returned in each and whenever each ran.
\<close>

theorem report_determined_by_analyzers:
  assumes "ri_health a = ri_health b" and "ri_performance a = ri_performance b"
      and "ri_logs a = ri_logs b" and "ri_network a = ri_network b"
  shows "sum_overall_status (mr_summary (generate_master_report a))
           = sum_overall_status (mr_summary (generate_master_report b))
       \<and> recommendations (generate_master_report a)
           = recommendations (generate_master_report b)"
  using assms by (simp add: generate_master_report_def Let_def)

theorem report_determined_by_analyzers_witness:
  "ri_ai_insights inputs_static \<noteq> ri_ai_insights inputs_ai
   \<and> sum_overall_status (mr_summary (generate_master_report inputs_static))
       = sum_overall_status (mr_summary (generate_master_report inputs_ai))
   \<and> recommendations (generate_master_report inputs_static)
       = recommendations (generate_master_report inputs_ai)"
proof -
  have d: "ri_ai_insights inputs_static \<noteq> ri_ai_insights inputs_ai"
    by (simp add: inputs_static_def inputs_ai_def get_static_insights_def)
  have h: "ri_health inputs_static = ri_health inputs_ai"
          "ri_performance inputs_static = ri_performance inputs_ai"
          "ri_logs inputs_static = ri_logs inputs_ai"
          "ri_network inputs_static = ri_network inputs_ai"
    by (simp_all add: inputs_static_def inputs_ai_def)
  from report_determined_by_analyzers [OF h] d show ?thesis by simp
qed

lemma health_when_two_down:
  assumes two: "services_available (qs_services (get_quick_status (he_quick env))) = 2"
      and cont: "containers_running (qs_containers (get_quick_status (he_quick env)))
                   < containers_expected (qs_containers (get_quick_status (he_quick env)))"
  shows "health_score (analyze_system_health env) = 15"
    and "health_level (analyze_system_health env) = ''CRITICAL''"
    and "qs_status (get_quick_status (he_quick env)) = u_large_yellow_circle @ '' PARTIAL''"
proof -
  have tot: "services_total (qs_services (get_quick_status (he_quick env))) = 4"
    by (simp add: get_quick_status_def Let_def)
  show st: "qs_status (get_quick_status (he_quick env)) = u_large_yellow_circle @ '' PARTIAL''"
    using status_by_count [of "he_quick env"] two by (simp add: Let_def)
  show sc: "health_score (analyze_system_health env) = 15"
    using cont by (simp add: analyze_system_health_def Let_def st two tot)
  show "health_level (analyze_system_health env) = ''CRITICAL''"
    using cont by (simp add: analyze_system_health_def Let_def st two tot)
qed

text \<open>
  C2 (amended). In every run in which exactly two of the four service checks fail and
  fewer containers run than expected, the quick status is PARTIAL, the health score is
  15 and the health level CRITICAL; the overall status is never NORMAL, whatever the
  performance, log and network outputs are, and it is CRITICAL exactly when the weights
  of those three sum to at least 2.
\<close>

theorem two_down_overall_status:
  assumes two: "services_available (qs_services (get_quick_status (he_quick env))) = 2"
      and cont: "containers_running (qs_containers (get_quick_status (he_quick env)))
                   < containers_expected (qs_containers (get_quick_status (he_quick env)))"
  shows "qs_status (get_quick_status (he_quick env)) = u_large_yellow_circle @ '' PARTIAL''
       \<and> health_score (analyze_system_health env) = 15
       \<and> health_level (analyze_system_health env) = ''CRITICAL''
       \<and> calculate_overall_status (analyze_system_health env) p l n
            \<noteq> u_large_green_circle @ '' NORMAL''
       \<and> (calculate_overall_status (analyze_system_health env) p l n
            = u_large_red_circle @ '' CRITICAL''
          \<longleftrightarrow> perf_weight p + logs_weight l + network_weight n \<ge> 2)"
proof -
  note h = health_when_two_down [OF two cont]
  have hw: "health_weight (analyze_system_health env) = 4"
    by (simp add: health_weight_def h(2) dict_get_def status_weights_def)
  have tw: "total_weight (analyze_system_health env) p l n
              = 4 + perf_weight p + logs_weight l + network_weight n"
    by (simp add: total_weight_def hw)
  have nn: "0 \<le> perf_weight p + logs_weight l + network_weight n"
    using other_weights_nonneg(1) [of p] other_weights_nonneg(2) [of l]
          other_weights_nonneg(3) [of n] by linarith
  show ?thesis
    using nn by (simp add: h calculate_overall_status_def tw)
qed

theorem two_down_overall_status_witness:
  "health_score (analyze_system_health health_env_two_down) = 15
   \<and> calculate_overall_status (analyze_system_health health_env_two_down)
         performance_fast logs_clean network_all_up \<noteq> u_large_green_circle @ '' NORMAL''"
proof -
  have two: "services_available (qs_services (get_quick_status (he_quick health_env_two_down))) = 2"
    by (simp add: health_env_two_down_def get_quick_status_def run_two_down_def
          fast_curl_check_def bool_int_def)
  have cont: "containers_running (qs_containers (get_quick_status (he_quick health_env_two_down)))
                < containers_expected (qs_containers (get_quick_status (he_quick health_env_two_down)))"
    by (simp add: health_env_two_down_def get_quick_status_def run_two_down_def
          strip_def is_space_def whitespace_def utf8_length_def Let_def)
  from two_down_overall_status [OF two cont, of performance_fast logs_clean network_all_up]
  show ?thesis by simp
qed

text \<open>
  The claim as stated fails in the run \<open>run_two_down\<close>: two of four services are
  down and three of four containers run, yet the quick status is PARTIAL and the
  overall status is WARNING.
\<close>

theorem two_down_counterexample:
  "services_available (qs_services (get_quick_status run_two_down)) = 2
   \<and> containers_running (qs_containers (get_quick_status run_two_down)) = 3
   \<and> containers_expected (qs_containers (get_quick_status run_two_down)) = 4
   \<and> qs_status (get_quick_status run_two_down) = u_large_yellow_circle @ '' PARTIAL''
   \<and> hd_quick_status health_two_down = get_quick_status run_two_down
   \<and> calculate_overall_status health_two_down performance_fast logs_clean network_all_up
       = u_large_yellow_circle @ '' WARNING''"
  by (simp add: get_quick_status_def run_two_down_def fast_curl_check_def bool_int_def
        strip_def is_space_def whitespace_def utf8_length_def health_two_down_def health_env_two_down_def
        analyze_system_health_def has_output_def
        calculate_overall_status_def total_weight_def health_weight_def perf_weight_def
        logs_weight_def network_weight_def get_network_status_def dict_get_def
        status_weights_def performance_fast_def logs_clean_def network_all_up_def Let_def)

subsection \<open>The log pattern analyzer\<close>

lemma match_here_append: "match_here r s \<Longrightarrow> match_here r (s @ post)"
proof (induction r s rule: match_here.induct)
  case (4 a r)
  then show ?case
    by (induction post) auto
qed auto

lemma match_here_search: "match_here r s \<Longrightarrow> search r s"
  by (cases s) auto

lemma search_append_right: "search r s \<Longrightarrow> search r (s @ post)"
proof (induction s)
  case Nil
  then show ?case using match_here_append [of r "[]" post] match_here_search by simp
next
  case (Cons c s)
  then show ?case using match_here_append [of r "c # s" post] by auto
qed

lemma search_append_left: "search r s \<Longrightarrow> search r (pre @ s)"
  by (induction pre) auto

lemma utf8_chars_ascii:
  "list_all (\<lambda>c. utf8_length c = 1) x
     \<Longrightarrow> utf8_chars (x @ rest) = map (\<lambda>c. [c]) x @ utf8_chars rest"
  by (induction x) simp_all

lemma utf8_chars_resume:
  "\<exists>a k. k \<le> 3 \<and> utf8_chars (pre @ s) = a @ utf8_chars (drop k s)"
proof (induction pre rule: utf8_chars.induct)
  case 1
  have "utf8_chars ([] @ s) = [] @ utf8_chars (drop 0 s)" by simp
  then show ?case by blast
next
  case (2 c p)
  let ?n = "utf8_length c - 1"
  have n: "?n \<le> 3" by (simp add: utf8_length_def Let_def)
  have u: "utf8_chars ((c # p) @ s) = (c # take ?n (p @ s)) # utf8_chars (drop ?n (p @ s))"
    by simp
  show ?case
  proof (cases "?n \<le> length p")
    case True
    then have d: "drop ?n (p @ s) = drop ?n p @ s" by simp
    obtain a k where k: "k \<le> 3"
        and a: "utf8_chars (drop ?n p @ s) = a @ utf8_chars (drop k s)"
      using 2 by blast
    have "utf8_chars ((c # p) @ s) = ((c # take ?n (p @ s)) # a) @ utf8_chars (drop k s)"
      using u d a by simp
    then show ?thesis using k by blast
  next
    case False
    then have d: "drop ?n (p @ s) = drop (?n - length p) s" by simp
    have "utf8_chars ((c # p) @ s)
            = [c # take ?n (p @ s)] @ utf8_chars (drop (?n - length p) s)"
      using u d by simp
    moreover have "?n - length p \<le> 3" using n by simp
    ultimately show ?thesis by blast
  qed
qed

text \<open>
  A match inside an ASCII literal survives whatever surrounds the literal, when at
  least three characters of the literal stand before the match.
\<close>

lemma re_search_infix:
  assumes m: "re_search p t"
      and ascii: "list_all (\<lambda>c. utf8_length c = 1) (h @ t)"
      and len: "3 \<le> length h"
  shows "re_search p (pre @ (h @ t) @ post)"
proof -
  obtain a k where k: "k \<le> 3"
      and a: "utf8_chars (pre @ ((h @ t) @ post)) = a @ utf8_chars (drop k ((h @ t) @ post))"
    using utf8_chars_resume [of pre "(h @ t) @ post"] by blast
  have d: "drop k ((h @ t) @ post) = drop k h @ t @ post" using k len by simp
  have ah: "list_all (\<lambda>c. utf8_length c = 1) (drop k h)"
    using ascii by (auto simp: list_all_iff dest: in_set_dropD)
  have at: "list_all (\<lambda>c. utf8_length c = 1) t" using ascii by simp
  have "utf8_chars (drop k h @ t @ post)
          = map (\<lambda>c. [c]) (drop k h) @ map (\<lambda>c. [c]) t @ utf8_chars post"
    using ah at by (simp add: utf8_chars_ascii)
  moreover have "utf8_chars t = map (\<lambda>c. [c]) t"
    using utf8_chars_ascii [OF at, of "[]"] by simp
  ultimately have
    "utf8_chars (pre @ (h @ t) @ post)
       = (a @ map (\<lambda>c. [c]) (drop k h)) @ utf8_chars t @ utf8_chars post"
    using a d by simp
  moreover have "search (compile_re p) ((a @ map (\<lambda>c. [c]) (drop k h)) @ utf8_chars t @ utf8_chars post)"
    using m unfolding re_search_def
    by (intro search_append_left search_append_right)
  ultimately show ?thesis unfolding re_search_def by simp
qed

lemma connection_failed_matches: "re_search ''connection.*failed'' ''connection failed''"
  by code_simp

lemma failed_matches: "re_search ''failed'' ''connection failed''"
  by code_simp

lemma startswith_append: "startswith (sub @ b) sub"
  by (induction sub) auto

lemma contains_infix: "contains (a @ sub @ b) sub"
proof (induction a)
  case Nil
  then show ?case using startswith_append [of sub b] by (cases "sub @ b") auto
next
  case (Cons c a)
  then show ?case by simp
qed


lemma concat_utf8_chars: "concat (utf8_chars s) = s"
  by (induction s rule: utf8_chars.induct) simp_all

lemma trim_parts:
  "\<exists>a b. ts = a @ rev (dropWhile P (rev (dropWhile P ts))) @ b \<and> list_all P a \<and> list_all P b"
proof -
  let ?ys = "dropWhile P ts"
  have 1: "ts = takeWhile P ts @ ?ys" by simp
  have "rev (rev ?ys) = rev (takeWhile P (rev ?ys) @ dropWhile P (rev ?ys))"
    by (simp only: takeWhile_dropWhile_id)
  then have 2: "?ys = rev (dropWhile P (rev ?ys)) @ rev (takeWhile P (rev ?ys))"
    by (simp only: rev_rev_ident rev_append)
  have 3: "list_all P (takeWhile P ts)"
    by (auto simp: list_all_iff dest: set_takeWhileD)
  have 4: "list_all P (rev (takeWhile P (rev ?ys)))"
    by (auto simp: list_all_iff dest: set_takeWhileD)
  have "ts = takeWhile P ts @ rev (dropWhile P (rev ?ys)) @ rev (takeWhile P (rev ?ys))"
    using 1 2 by metis
  then show ?thesis using 3 4 by blast
qed

lemma strip_between:
  "\<exists>a b. s = a @ strip s @ b \<and> set a \<subseteq> set (concat whitespace)
         \<and> set b \<subseteq> set (concat whitespace)"
proof -
  obtain ta tb where
        t: "utf8_chars s
              = ta @ rev (dropWhile is_space (rev (dropWhile is_space (utf8_chars s)))) @ tb"
      and a: "list_all is_space ta" and b: "list_all is_space tb"
    using trim_parts [of "utf8_chars s" is_space] by blast
  have "concat (utf8_chars s) = concat ta @ strip s @ concat tb"
    unfolding strip_def by (subst t) simp
  then have s: "s = concat ta @ strip s @ concat tb" by (simp add: concat_utf8_chars)
  have "set (concat ta) \<subseteq> set (concat whitespace)"
    using a by (auto simp: list_all_iff is_space_def)
  moreover have "set (concat tb) \<subseteq> set (concat whitespace)"
    using b by (auto simp: list_all_iff is_space_def)
  ultimately show ?thesis using s by blast
qed

lemma infix_between:
  assumes eq: "a @ mid @ b = pre @ m @ post" and ne: "m \<noteq> []"
      and h: "hd m \<notin> set a" and l: "last m \<notin> set b"
  shows "\<exists>x y. mid = x @ m @ y"
proof -
  from append_eq_append_conv2 [THEN iffD1, OF eq]
  obtain u where u: "(a = pre @ u \<and> u @ mid @ b = m @ post)
                     \<or> (a @ u = pre \<and> mid @ b = u @ m @ post)"
    by blast
  have 1: "\<exists>u. pre = a @ u \<and> mid @ b = u @ m @ post"
  proof (cases "a = pre @ u \<and> u @ mid @ b = m @ post")
    case True
    show ?thesis
    proof (cases u)
      case Nil
      then show ?thesis using True by simp
    next
      case (Cons c u')
      then have "hd m = c" using True ne by (cases m) auto
      then have "hd m \<in> set a" using True Cons by simp
      then show ?thesis using h by simp
    qed
  next
    case False
    then show ?thesis using u by auto
  qed
  then obtain u where pu: "pre = a @ u" and mu: "mid @ b = (u @ m) @ post" by auto
  from append_eq_append_conv2 [THEN iffD1, OF mu]
  obtain v where v: "(mid = (u @ m) @ v \<and> v @ b = post)
                     \<or> (mid @ v = u @ m \<and> b = v @ post)"
    by blast
  show ?thesis
  proof (cases "mid = (u @ m) @ v \<and> v @ b = post")
    case True
    then show ?thesis by auto
  next
    case False
    then have f: "mid @ v = u @ m" "b = v @ post" using v by auto
    show ?thesis
    proof (cases "v = []")
      case True
      then have "mid = u @ m @ []" using f by simp
      then show ?thesis by blast
    next
      case False
      then have "last (mid @ v) = last v" by simp
      moreover have "last (u @ m) = last m" using ne by simp
      ultimately have "last m = last v" using f(1) by simp
      then have "last m \<in> set b" using f(2) False by simp
      then show ?thesis using l by simp
    qed
  qed
qed

lemma strip_keeps:
  assumes "m \<noteq> []" and "hd m \<notin> set (concat whitespace)"
      and "last m \<notin> set (concat whitespace)"
  shows "\<exists>pre' post'. strip (pre @ m @ post) = pre' @ m @ post'"
proof -
  obtain a b where s: "pre @ m @ post = a @ strip (pre @ m @ post) @ b"
      and a: "set a \<subseteq> set (concat whitespace)" and b: "set b \<subseteq> set (concat whitespace)"
    using strip_between [of "pre @ m @ post"] by blast
  have "hd m \<notin> set a" "last m \<notin> set b" using assms a b by auto
  then show ?thesis using infix_between [OF s [symmetric] assms(1)] by blast
qed

lemma split_nonempty: "split sep s \<noteq> []"
  by (induction s) (auto split: list.splits)

lemma split_head:
  "sep \<notin> set m \<Longrightarrow> \<exists>y ls. split sep (m @ b) = (m @ y) # ls"
proof (induction m)
  case Nil
  then show ?case using split_nonempty [of sep b] by (cases "split sep b") auto
next
  case (Cons c m)
  then obtain y ls where "split sep (m @ b) = (m @ y) # ls" by auto
  moreover have "c \<noteq> sep" using Cons.prems by auto
  ultimately show ?case by simp
qed

lemma split_keeps:
  "sep \<notin> set m \<Longrightarrow> \<exists>l \<in> set (split sep (a @ m @ b)). \<exists>x y. l = x @ m @ y"
proof (induction a)
  case Nil
  then obtain y ls where "split sep (m @ b) = (m @ y) # ls" using split_head by blast
  then show ?case by (auto intro: exI [of _ "[]"])
next
  case (Cons c a)
  then obtain l x y where l: "l \<in> set (split sep (a @ m @ b))" "l = x @ m @ y" by blast
  show ?case
  proof (cases "c = sep")
    case True
    then show ?thesis using l by auto
  next
    case False
    obtain l0 ls where s: "split sep (a @ m @ b) = l0 # ls"
      using split_nonempty [of sep "a @ m @ b"] by (cases "split sep (a @ m @ b)") auto
    have sp: "split sep ((c # a) @ m @ b) = (c # l0) # ls"
      using False s by simp
    show ?thesis
    proof (cases "l = l0")
      case True
      have "c # l0 = (c # x) @ m @ y" using True l(2) by simp
      moreover have "c # l0 \<in> set (split sep ((c # a) @ m @ b))" using sp by simp
      ultimately show ?thesis by blast
    next
      case False
      then have "l \<in> set (split sep ((c # a) @ m @ b))" using l(1) s sp by simp
      then show ?thesis using l(2) by blast
    qed
  qed
qed

lemma detected_member:
  assumes "(name, pats) \<in> set patterns" and "p \<in> set pats" and "re_search p text"
      and "strip text \<noteq> []"
  shows "name \<in> set (detected_patterns (analyze_with_patterns now text))"
proof -
  have "list_ex (\<lambda>pattern. re_search pattern text) pats"
    using assms(2,3) by (auto simp: list_ex_iff)
  then have "(name, pats) \<in> set (filter (\<lambda>(pattern_type, pats).
                 list_ex (\<lambda>pattern. re_search pattern text) pats) patterns)"
    using assms(1) by simp
  then have "name \<in> set (map fst (filter (\<lambda>(pattern_type, pats).
                 list_ex (\<lambda>pattern. re_search pattern text) pats) patterns))"
    by force
  then show ?thesis using assms(4) by (simp add: analyze_with_patterns_def Let_def)
qed


lemma strip_all_space:
  assumes "list_all is_space (utf8_chars s)"
  shows "strip s = []"
proof -
  have d: "dropWhile is_space (utf8_chars s) = []"
    using assms by (induction "utf8_chars s") (auto simp: list_all_iff)
  show ?thesis unfolding strip_def d by simp
qed

text \<open>
  C8. Whenever the text holds \<open>ERROR: connection failed\<close> (anywhere, so also as a
  line of its own), the detected patterns include the database-error group and the
  application-error group, and the alert level is ERROR.
\<close>

theorem connection_failed_detected:
  fixes pre post :: string and now :: clock
  defines "result \<equiv> analyze_with_patterns now (pre @ ''ERROR: connection failed'' @ post)"
  shows "''database_errors'' \<in> set (detected_patterns result)
       \<and> ''application_errors'' \<in> set (detected_patterns result)
       \<and> alert_level result = ''ERROR''"
proof -
  let ?m = "''ERROR: connection failed''"
  let ?text = "pre @ ?m @ post"
  obtain pre' post' where st: "strip ?text = pre' @ ?m @ post'"
    using strip_keeps [of ?m pre post] by (auto simp: whitespace_def)
  then have ne: "strip ?text \<noteq> []" by simp
  have "CHR 0x0A \<notin> set ?m" by simp
  then obtain l x y where l: "l \<in> set (split (CHR 0x0A) (pre' @ ?m @ post'))"
      and lx: "l = x @ ?m @ y"
    using split_keeps [of "CHR 0x0A" ?m pre' post'] by blast
  have "l = x @ ''ERROR'' @ ('': connection failed'' @ y)" using lx by simp
  then have "contains l ''ERROR''" using contains_infix by metis
  then have "l \<in> set (filter (\<lambda>l. contains l ''ERROR'') (split (CHR 0x0A) (strip ?text)))"
    using l st by simp
  then have pos: "0 < length (filter (\<lambda>l. contains l ''ERROR'') (split (CHR 0x0A) (strip ?text)))"
    by (rule length_pos_if_in_set)
  have alert: "alert_level result = ''ERROR''"
    unfolding result_def using ne pos by (simp add: analyze_with_patterns_def Let_def)
  have lit: "?m = ''ERROR: '' @ ''connection failed''" by simp
  have m1: "re_search ''connection.*failed'' ?text"
    unfolding lit using connection_failed_matches
    by (rule re_search_infix) (simp_all add: utf8_length_def)
  have m2: "re_search ''failed'' ?text"
    unfolding lit using failed_matches
    by (rule re_search_infix) (simp_all add: utf8_length_def)
  have p1: "(''database_errors'', [''connection.*failed'', ''timeout'', ''deadlock''])
              \<in> set patterns"
    by (simp add: patterns_def)
  have p2: "(''application_errors'', [''exception'', ''error'', ''failed'']) \<in> set patterns"
    by (simp add: patterns_def)
  have db: "''database_errors'' \<in> set (detected_patterns result)"
    unfolding result_def using p1 _ m1 ne by (rule detected_member) simp
  have app: "''application_errors'' \<in> set (detected_patterns result)"
    unfolding result_def using p2 _ m2 ne by (rule detected_member) simp
  show ?thesis using alert db app by simp
qed

text \<open>
  C5 (amended). The analysis of a text depends on the clock in its \<open>timestamp\<close>
  field only: analysing the same text at two times gives results that agree in the
  number of entries, the counts per level, the detected patterns, the alert level and
  the summary. A text that is empty or whitespace only, which is a text every
  character of which is one of Python's whitespace characters (the ASCII ones as well
  as U+0085, U+00A0, U+1680, U+2000 to U+200A, U+2028, U+2029, U+202F, U+205F and
  U+3000), gives no entry, zero counts, no pattern and the alert level INFO.
\<close>

theorem analysis_deterministic_but_timestamp:
  "analyze_with_patterns t1 text = (analyze_with_patterns t2 text) \<lparr> la_timestamp := t1 \<rparr>
   \<and> (list_all is_space (utf8_chars text) \<longrightarrow>
        analyze_with_patterns t1 text =
          \<lparr> la_timestamp = t1, total_entries = 0,
            levels = [(''INFO'', 0), (''WARNING'', 0), (''ERROR'', 0)],
            detected_patterns = [], alert_level = ''INFO'',
            summary = ''No logs available for analysis'' \<rparr>)"
  by (simp add: analyze_with_patterns_def Let_def strip_all_space)

theorem analysis_deterministic_but_timestamp_witness:
  "list_all is_space (utf8_chars blank_text)
   \<and> length (utf8_chars blank_text) = 5
   \<and> total_entries (analyze_with_patterns 5 blank_text) = 0
   \<and> levels (analyze_with_patterns 5 blank_text)
       = [(''INFO'', 0), (''WARNING'', 0), (''ERROR'', 0)]
   \<and> detected_patterns (analyze_with_patterns 5 blank_text) = []
   \<and> alert_level (analyze_with_patterns 5 blank_text) = ''INFO''"
proof -
  have h: "list_all is_space (utf8_chars blank_text)"
    by (simp add: blank_text_def is_space_def whitespace_def utf8_length_def)
  have n: "length (utf8_chars blank_text) = 5"
    by (simp add: blank_text_def utf8_length_def)
  from analysis_deterministic_but_timestamp [of 5 blank_text 5] h n
  show ?thesis by simp
qed

text \<open>
  The claim as stated fails: the result records of two analyses of the same text,
  taken at different times, differ (in the timestamp).
\<close>

theorem analysis_twice_counterexample:
  "analyze_with_patterns 0 ''INFO started'' \<noteq> analyze_with_patterns 1 ''INFO started''"
  by (simp add: analyze_with_patterns_def Let_def)

subsection \<open>The network summary\<close>

text \<open>
  C6 (amended). For every target list with at least one host to ping and at least one
  HTTP endpoint, so for the built-in list, the network analysis returns a report (no
  division by zero: the list of DNS names is a fixed list of three), and each
  availability is the number of reachable targets of the category over the size of
  the category, times 100.
\<close>

theorem network_summary_division:
  fixes targets :: "string list"
  defines "n_ping \<equiv> length (filter (\<lambda>t. \<not> startswith t ''http'') targets)"
      and "n_http \<equiv> length (filter (\<lambda>t. startswith t ''http'') targets)"
  shows "(n_ping \<noteq> 0 \<and> n_http \<noteq> 0 \<longrightarrow>
            (\<exists>report. analyze_network_health targets env = Inr report
               \<and> ping_availability (nr_summary report)
                    = real (length (filter ping_available (ping_results report))) / real n_ping * 100
               \<and> http_availability (nr_summary report)
                    = real (length (filter http_available (http_results report))) / real n_http * 100
               \<and> dns_availability (nr_summary report)
                    = real (length (filter dns_resolved (dns_results report))) / 3 * 100))
       \<and> (\<exists>report. analyze_network_health target_services env = Inr report)"
proof -
  have dns: "length dns_hosts = 3" by (simp add: dns_hosts_def)
  have b: "n_ping \<noteq> 0 \<and> n_http \<noteq> 0 \<longrightarrow>
            (\<exists>report. analyze_network_health targets env = Inr report
               \<and> ping_availability (nr_summary report)
                    = real (length (filter ping_available (ping_results report))) / real n_ping * 100
               \<and> http_availability (nr_summary report)
                    = real (length (filter http_available (http_results report))) / real n_http * 100
               \<and> dns_availability (nr_summary report)
                    = real (length (filter dns_resolved (dns_results report))) / 3 * 100)"
    unfolding n_ping_def n_http_def
    by (simp add: analyze_network_health_def py_truediv_def Let_def dns)
  have c: "\<exists>report. analyze_network_health target_services env = Inr report"
    by (simp add: analyze_network_health_def py_truediv_def Let_def dns target_services_def)
  show ?thesis using b c by blast
qed

theorem network_summary_division_witness:
  "length (filter (\<lambda>t. \<not> startswith t ''http'') target_services) = 2
   \<and> length (filter (\<lambda>t. startswith t ''http'') target_services) = 4
   \<and> (\<exists>report. analyze_network_health target_services network_env_all_up = Inr report
         \<and> ping_availability (nr_summary report) = 100
         \<and> http_availability (nr_summary report) = 100
         \<and> dns_availability (nr_summary report) = 100)"
proof -
  have p: "length (filter (\<lambda>t. \<not> startswith t ''http'') target_services) = 2"
    by (simp add: target_services_def)
  have h: "length (filter (\<lambda>t. startswith t ''http'') target_services) = 4"
    by (simp add: target_services_def)
  obtain report where r: "analyze_network_health target_services network_env_all_up = Inr report"
      and rp: "ping_availability (nr_summary report)
                 = real (length (filter ping_available (ping_results report))) / 2 * 100"
      and rh: "http_availability (nr_summary report)
                 = real (length (filter http_available (http_results report))) / 4 * 100"
      and rd: "dns_availability (nr_summary report)
                 = real (length (filter dns_resolved (dns_results report))) / 3 * 100"
    using network_summary_division [of target_services network_env_all_up] p h by auto
  have ev: "analyze_network_health target_services network_env_all_up = Inr report
            \<Longrightarrow> length (filter ping_available (ping_results report)) = 2
              \<and> length (filter http_available (http_results report)) = 4
              \<and> length (filter dns_resolved (dns_results report)) = 3"
    by (auto simp add: analyze_network_health_def py_truediv_def Let_def target_services_def
          dns_hosts_def network_env_all_up_def)
  show ?thesis using p h r rp rh rd ev [OF r] by simp
qed

text \<open>
  The claim as stated fails for a target list without a host to ping: the first
  division of the summary raises.
\<close>

theorem empty_category_counterexample:
  "filter (\<lambda>t. \<not> startswith t ''http'') targets_http_only = []
   \<and> analyze_network_health targets_http_only network_env_all_up = Inl ZeroDivisionError"
  by (simp add: analyze_network_health_def py_truediv_def Let_def targets_http_only_def)

subsection \<open>Trend detection\<close>

lemma binade_unique:
  fixes a :: real and e e' :: int
  assumes "2 powi e \<le> a" and "a < 2 powi (e + 1)"
      and "2 powi e' \<le> a" and "a < 2 powi (e' + 1)"
  shows "e' = e"
proof (rule ccontr)
  assume "e' \<noteq> e"
  then consider "e' + 1 \<le> e" | "e + 1 \<le> e'" by linarith
  then show False
  proof cases
    case 1
    then have "(2::real) powi (e' + 1) \<le> 2 powi e" by (intro power_int_increasing) auto
    then show False using assms by linarith
  next
    case 2
    then have "(2::real) powi (e + 1) \<le> 2 powi e'" by (intro power_int_increasing) auto
    then show False using assms by linarith
  qed
qed

lemma binade_eq:
  assumes lo: "2 powi e \<le> \<bar>x\<bar>" and hi: "\<bar>x\<bar> < 2 powi (e + 1)"
      and r: "- 1022 \<le> e" "e \<le> 1023"
  shows "binade x = e"
proof -
  let ?P = "\<lambda>e. 2 powi e \<le> \<bar>x\<bar> \<and> \<bar>x\<bar> < 2 powi (e + 1)"
  have "set normal_exponents = {- 1022..1023}"
    unfolding normal_exponents_def by (rule set_upto)
  then have "e \<in> set normal_exponents" using r by simp
  then have "find ?P normal_exponents \<noteq> None"
    using lo hi by (auto simp: find_None_iff)
  then obtain y where y: "find ?P normal_exponents = Some y" by auto
  then have "?P y" by (auto simp: find_Some_iff)
  then have "y = e" using binade_unique [of e "\<bar>x\<bar>" y] lo hi by simp
  then show ?thesis using y by (simp add: binade_def)
qed

lemma py_float_eq:
  assumes "2 powi e \<le> \<bar>x\<bar>" and "\<bar>x\<bar> < 2 powi (e + 1)"
      and "- 1022 \<le> e" and "e \<le> 1023"
      and "round_half_even (x / 2 powi (e - 52)) = k"
  shows "py_float x = real_of_int k * 2 powi (e - 52)"
  using assms by (simp add: py_float_def binade_eq Let_def)

lemma py_float_zero: "py_float 0 = 0"
  by (simp add: py_float_def round_half_even_def)

lemma float_1_3: "py_float 1.3 = 5854679515581645 / 2 ^ 52"
  using py_float_eq [of 0 "1.3" 5854679515581645] by (simp add: round_half_even_def)

lemma float_0_7: "py_float 0.7 = 3152519739159347 / 2 ^ 52"
  using py_float_eq [of "- 1" "0.7" 6305039478318694] by (simp add: round_half_even_def)

text \<open>
  The series \<open>[61]*7 + [91]*3\<close>: both means are floats, and the product
  \<open>70.0 * 1.3\<close>, which is 91.000000000000003 exactly, rounds to 91.
\<close>

lemma at_boundary_recent:
  "statistics_mean (last3 (app_requests metrics_at_boundary)) = 91"
  using py_float_eq [of 6 91 6403555720167424]
  by (simp add: statistics_mean_def last3_def metrics_at_boundary_def round_half_even_def)

lemma at_boundary_overall:
  "statistics_mean (app_requests metrics_at_boundary) = 70"
  using py_float_eq [of 6 70 4925812092436480]
  by (simp add: statistics_mean_def metrics_at_boundary_def round_half_even_def)

lemma at_boundary_growth_threshold:
  "float_mul (statistics_mean (app_requests metrics_at_boundary)) (py_float 1.3) = 91"
  unfolding at_boundary_overall float_mul_def float_1_3
  using py_float_eq [of 6 "70 * (5854679515581645 / 2 ^ 52)" 6403555720167424]
  by (simp add: round_half_even_def)

lemma at_boundary_decline_threshold:
  "float_mul (statistics_mean (app_requests metrics_at_boundary)) (py_float 0.7) = 49"
  unfolding at_boundary_overall float_mul_def float_0_7
  using py_float_eq [of 5 "70 * (3152519739159347 / 2 ^ 52)" 6896136929411072]
  by (simp add: round_half_even_def)

lemma no_error_no_memory:
  "app_errors m = [0] \<Longrightarrow> app_memory m = [0] \<Longrightarrow>
   analyze_trends m =
     (if length (app_requests m) \<ge> 3 then
        (if statistics_mean (last3 (app_requests m))
              > float_mul (statistics_mean (app_requests m)) (py_float 1.3)
           then [u_chart_with_upwards_trend @ '' Growing load: +30% above average'']
         else if statistics_mean (last3 (app_requests m))
              < float_mul (statistics_mean (app_requests m)) (py_float 0.7)
           then [u_chart_with_downwards_trend @ '' Load decrease: -30% below average'']
         else [])
      else [])"
  by (simp add: analyze_trends_def Let_def py_any_def py_max_def float_div_def py_float_zero)

lemma trends_at_boundary: "analyze_trends metrics_at_boundary = []"
proof -
  have "app_errors metrics_at_boundary = [0]" "app_memory metrics_at_boundary = [0]"
    by (simp_all add: metrics_at_boundary_def)
  then show ?thesis
    by (simp add: no_error_no_memory at_boundary_recent
          at_boundary_growth_threshold at_boundary_decline_threshold)
qed

text \<open>
  The series \<open>[5]*9 + [4]*27 + [6, 6, 5]\<close>: the recent mean 17/3 rounds up, and
  the product of the rounded overall mean and 1.3 lies one spacing below it.
\<close>

lemma growth_recent:
  "statistics_mean (last3 (app_requests metrics_growth_at_boundary)) = 6380099472108203 / 2 ^ 50"
  using py_float_eq [of 2 "17 / 3" 6380099472108203]
  by (simp add: statistics_mean_def last3_def metrics_growth_at_boundary_def round_half_even_def
        sum_list_replicate)

lemma growth_overall:
  "statistics_mean (app_requests metrics_growth_at_boundary) = 4907768824698617 / 2 ^ 50"
  using py_float_eq [of 2 "170 / 39" 4907768824698617]
  by (simp add: statistics_mean_def metrics_growth_at_boundary_def round_half_even_def
        sum_list_replicate)

lemma growth_threshold:
  "float_mul (statistics_mean (app_requests metrics_growth_at_boundary)) (py_float 1.3)
     = 6380099472108202 / 2 ^ 50"
  unfolding growth_overall float_mul_def float_1_3
  using py_float_eq [of 2 "4907768824698617 / 2 ^ 50 * (5854679515581645 / 2 ^ 52)" 6380099472108202]
  by (simp add: round_half_even_def)

lemma trends_growth_at_boundary:
  "analyze_trends metrics_growth_at_boundary
     = [u_chart_with_upwards_trend @ '' Growing load: +30% above average'']"
proof -
  have "app_errors metrics_growth_at_boundary = [0]" "app_memory metrics_growth_at_boundary = [0]"
       "length (app_requests metrics_growth_at_boundary) = 39"
    by (simp_all add: metrics_growth_at_boundary_def)
  then show ?thesis
    by (simp add: no_error_no_memory growth_recent growth_threshold)
qed

text \<open>
  The series \<open>[21]*9 + [20]*9 + [14, 14, 13]\<close>: the recent mean 41/3 rounds down,
  and the product of the rounded overall mean and 0.7 lies one spacing above it.
\<close>

lemma decline_recent:
  "statistics_mean (last3 (app_requests metrics_decline_at_boundary)) = 7693649363424597 / 2 ^ 49"
  using py_float_eq [of 3 "41 / 3" 7693649363424597]
  by (simp add: statistics_mean_def last3_def metrics_decline_at_boundary_def round_half_even_def
        sum_list_replicate)

lemma decline_overall:
  "statistics_mean (app_requests metrics_decline_at_boundary) = 5495463831017570 / 2 ^ 48"
  using py_float_eq [of 4 "410 / 21" 5495463831017570]
  by (simp add: statistics_mean_def metrics_decline_at_boundary_def round_half_even_def
        sum_list_replicate)

lemma decline_growth_threshold:
  "float_mul (statistics_mean (app_requests metrics_decline_at_boundary)) (py_float 1.3)
     = 7144102980322841 / 2 ^ 48"
  unfolding decline_overall float_mul_def float_1_3
  using py_float_eq [of 4 "5495463831017570 / 2 ^ 48 * (5854679515581645 / 2 ^ 52)" 7144102980322841]
  by (simp add: round_half_even_def)

lemma decline_threshold:
  "float_mul (statistics_mean (app_requests metrics_decline_at_boundary)) (py_float 0.7)
     = 7693649363424598 / 2 ^ 49"
  unfolding decline_overall float_mul_def float_0_7
  using py_float_eq [of 3 "5495463831017570 / 2 ^ 48 * (3152519739159347 / 2 ^ 52)" 7693649363424598]
  by (simp add: round_half_even_def)

lemma trends_decline_at_boundary:
  "analyze_trends metrics_decline_at_boundary
     = [u_chart_with_downwards_trend @ '' Load decrease: -30% below average'']"
proof -
  have "app_errors metrics_decline_at_boundary = [0]" "app_memory metrics_decline_at_boundary = [0]"
       "length (app_requests metrics_decline_at_boundary) = 21"
    by (simp_all add: metrics_decline_at_boundary_def)
  then show ?thesis
    by (simp add: no_error_no_memory decline_recent decline_growth_threshold
          decline_threshold)
qed

lemma exact_positions:
  "mean (last3 (app_requests metrics_at_boundary)) = 1.3 * mean (app_requests metrics_at_boundary)"
  "mean (last3 (app_requests metrics_growth_at_boundary))
     = 1.3 * mean (app_requests metrics_growth_at_boundary)"
  "mean (last3 (app_requests metrics_decline_at_boundary))
     = 0.7 * mean (app_requests metrics_decline_at_boundary)"
  by (simp_all add: mean_def last3_def metrics_at_boundary_def metrics_growth_at_boundary_def
        metrics_decline_at_boundary_def sum_list_replicate)

text \<open>
  C4 (amended). For a request series of at least three samples, growth is reported
  exactly when the mean of the last three samples is greater than the product of the
  mean of all samples and 1.3, and decline exactly when growth is not reported and
  that mean is less than the product of the mean of all samples and 0.7. The means
  and the products are the floats the code computes: a mean is the exact mean rounded
  once, 1.3 and 0.7 are the floats nearest to them, and a product is rounded once. A
  series that lies exactly at a boundary is classified by that rounding: of two
  series whose last three samples average exactly 1.3 times the average of all, one
  reports growth and one reports nothing, and a series whose last three samples
  average exactly 0.7 times the average of all reports decline.
\<close>

theorem trend_thresholds:
  fixes m :: metrics
  defines "recent_avg \<equiv> statistics_mean (last3 (app_requests m))"
      and "overall_avg \<equiv> statistics_mean (app_requests m)"
  defines "growth \<equiv> u_chart_with_upwards_trend @ '' Growing load: +30% above average''"
      and "decline \<equiv> u_chart_with_downwards_trend @ '' Load decrease: -30% below average''"
  shows "(length (app_requests m) \<ge> 3 \<longrightarrow>
            (growth \<in> set (analyze_trends m)
               \<longleftrightarrow> recent_avg > float_mul overall_avg (py_float 1.3))
          \<and> (decline \<in> set (analyze_trends m)
               \<longleftrightarrow> recent_avg < float_mul overall_avg (py_float 0.7)
                    \<and> \<not> recent_avg > float_mul overall_avg (py_float 1.3)))
       \<and> mean (last3 (app_requests metrics_growth_at_boundary))
           = 1.3 * mean (app_requests metrics_growth_at_boundary)
       \<and> analyze_trends metrics_growth_at_boundary = [growth]
       \<and> mean (last3 (app_requests metrics_at_boundary))
           = 1.3 * mean (app_requests metrics_at_boundary)
       \<and> analyze_trends metrics_at_boundary = []
       \<and> mean (last3 (app_requests metrics_decline_at_boundary))
           = 0.7 * mean (app_requests metrics_decline_at_boundary)
       \<and> analyze_trends metrics_decline_at_boundary = [decline]"
proof -
  have general: "length (app_requests m) \<ge> 3 \<longrightarrow>
            (growth \<in> set (analyze_trends m)
               \<longleftrightarrow> recent_avg > float_mul overall_avg (py_float 1.3))
          \<and> (decline \<in> set (analyze_trends m)
               \<longleftrightarrow> recent_avg < float_mul overall_avg (py_float 0.7)
                    \<and> \<not> recent_avg > float_mul overall_avg (py_float 1.3))"
    unfolding recent_avg_def overall_avg_def growth_def decline_def
    by (simp add: analyze_trends_def Let_def)
  show ?thesis
    unfolding growth_def decline_def
    using general [unfolded growth_def decline_def] exact_positions
          trends_growth_at_boundary trends_at_boundary trends_decline_at_boundary
    by blast
qed

theorem trend_thresholds_witness:
  "length (app_requests metrics_growth_at_boundary) = 39
   \<and> statistics_mean (last3 (app_requests metrics_growth_at_boundary))
       > float_mul (statistics_mean (app_requests metrics_growth_at_boundary)) (py_float 1.3)
   \<and> u_chart_with_upwards_trend @ '' Growing load: +30% above average''
       \<in> set (analyze_trends metrics_growth_at_boundary)
   \<and> u_chart_with_downwards_trend @ '' Load decrease: -30% below average''
       \<notin> set (analyze_trends metrics_growth_at_boundary)"
proof -
  have h: "length (app_requests metrics_growth_at_boundary) = 39"
    by (simp add: metrics_growth_at_boundary_def)
  have g: "statistics_mean (last3 (app_requests metrics_growth_at_boundary))
       > float_mul (statistics_mean (app_requests metrics_growth_at_boundary)) (py_float 1.3)"
    by (simp add: growth_recent growth_threshold)
  from trend_thresholds [of metrics_growth_at_boundary] h g show ?thesis by simp
qed

text \<open>
  The claim as stated fails at the boundary: the mean of the last three samples is
  exactly 1.3 times the mean of all, and no trend is reported.
\<close>

theorem trend_boundary_counterexample:
  "length (app_requests metrics_at_boundary) \<ge> 3
   \<and> mean (last3 (app_requests metrics_at_boundary))
       = 1.3 * mean (app_requests metrics_at_boundary)
   \<and> analyze_trends metrics_at_boundary = []"
  using trends_at_boundary exact_positions(1) by (simp add: metrics_at_boundary_def)

subsection \<open>Failures of the log analysis\<close>

text \<open>
  C9 (amended). When the body of the log analysis raises (the import fails, or the
  answer of Loki is malformed), the result has the alert level ERROR, which the
  aggregator weighs 3, as it weighs logs with error lines. An unreachable Loki is not
  such a case: \<open>get_loki_logs\<close> catches the exception of the request, the result has
  the alert level UNKNOWN, and its weight is 1, the weight of clean logs.
\<close>

theorem log_failure_weights:
  "(logs_try_body env = Inl e \<longrightarrow>
      ld_alert_level (analyze_logs_patterns env) = Some ''ERROR''
      \<and> logs_weight (analyze_logs_patterns env) = 3)
   \<and> (le_import_ok env \<and> le_loki_reply env = RaisedRequestException msg \<longrightarrow>
      ld_alert_level (analyze_logs_patterns env) = Some ''UNKNOWN''
      \<and> logs_weight (analyze_logs_patterns env) = 1)
   \<and> (ld_alert_level l = Some ''ERROR'' \<longrightarrow> logs_weight l = 3)
   \<and> (ld_alert_level l = Some ''INFO'' \<longrightarrow> logs_weight l = 1)"
proof -
  have a: "logs_try_body env = Inl e \<longrightarrow>
      ld_alert_level (analyze_logs_patterns env) = Some ''ERROR''
      \<and> logs_weight (analyze_logs_patterns env) = 3"
    by (simp add: analyze_logs_patterns_def logs_weight_def dict_get_def status_weights_def)
  have b: "le_import_ok env \<and> le_loki_reply env = RaisedRequestException msg \<longrightarrow>
      ld_alert_level (analyze_logs_patterns env) = Some ''UNKNOWN''
      \<and> logs_weight (analyze_logs_patterns env) = 1"
    by (simp add: analyze_logs_patterns_def logs_try_body_def get_loki_logs_def
          py_has_key_def py_getitem_def logs_weight_def dict_get_def status_weights_def)
  have c: "(ld_alert_level l = Some ''ERROR'' \<longrightarrow> logs_weight l = 3)
         \<and> (ld_alert_level l = Some ''INFO'' \<longrightarrow> logs_weight l = 1)"
    by (simp add: logs_weight_def dict_get_def status_weights_def)
  show ?thesis using a b c by blast
qed

theorem log_failure_weights_witness:
  "logs_try_body logs_env_malformed = Inl AttributeError
   \<and> logs_weight (analyze_logs_patterns logs_env_malformed) = 3
   \<and> le_import_ok logs_env_unreachable
   \<and> logs_weight (analyze_logs_patterns logs_env_unreachable) = 1
   \<and> logs_weight logs_clean = 1"
proof -
  have a: "logs_try_body logs_env_malformed = Inl AttributeError"
    by (simp add: logs_try_body_def logs_env_malformed_def get_loki_logs_def
          printed_results_def py_get_def py_len_def py_iter_def py_has_key_def
          collect_entries_def dict_get_def Let_def)
  have b: "le_import_ok logs_env_unreachable
           \<and> le_loki_reply logs_env_unreachable = RaisedRequestException ''Connection refused''"
    by (simp add: logs_env_unreachable_def)
  have c: "ld_alert_level logs_clean = Some ''INFO''"
    by (simp add: logs_clean_def)
  from log_failure_weights [of logs_env_malformed AttributeError "''Connection refused''"
                               logs_clean]
       log_failure_weights [of logs_env_unreachable AttributeError "''Connection refused''"
                               logs_clean]
       a b c
  show ?thesis by simp
qed

text \<open>
  The claim as stated fails when Loki is unreachable: the alert level is UNKNOWN, and
  the total weight is the one of the same run with clean logs.
\<close>

theorem unreachable_loki_counterexample:
  "le_loki_reply logs_env_unreachable = RaisedRequestException ''Connection refused''
   \<and> ld_alert_level (analyze_logs_patterns logs_env_unreachable) = Some ''UNKNOWN''
   \<and> logs_weight (analyze_logs_patterns logs_env_unreachable) = 1
   \<and> total_weight health_two_down performance_fast
        (analyze_logs_patterns logs_env_unreachable) network_all_up
      = total_weight health_two_down performance_fast logs_clean network_all_up"
  by (simp add: logs_env_unreachable_def analyze_logs_patterns_def logs_try_body_def
        get_loki_logs_def py_has_key_def py_getitem_def logs_weight_def dict_get_def
        status_weights_def total_weight_def logs_clean_def)

end
